theory Spec2Isabelle
  imports Main
begin

section \<open>Out-of-flow geometry of WebCore::Layout::FormattingContext\<close>

text \<open>
  A shallow embedding of \<^verbatim>\<open>Source/WebCore/layout/FormattingContext.cpp\<close>.

  A \<^verbatim>\<open>Layout::Box\<close> is known by its identity (C++ compares boxes by address); a pointer to
  a box is an optional identity, \<open>None\<close> being the null pointer. \<^verbatim>\<open>LayoutUnit\<close> is
  declared outside the file: it is the type parameter \<open>'u\<close>, of which the code uses
  \<open>+\<close> and the comparisons only. The computed style's \<^verbatim>\<open>Length\<close> is the type
  parameter \<open>'l\<close>.
\<close>

type_synonym box_id = nat

subsection \<open>Geometry values\<close>

text \<open>\<^verbatim>\<open>Position\<close>, with \<^verbatim>\<open>x\<close> and \<^verbatim>\<open>y\<close> (named \<open>x_pos\<close> and \<open>y_pos\<close> here).\<close>

record 'u Position =
  x_pos :: 'u
  y_pos :: 'u

text \<open>
  Modelled from the spec: \<^verbatim>\<open>Position::moveBy\<close> is defined outside the file. The
  coordinate mapper "accumulates the top-left of each ComputedBox" with it, so it adds the
  offset to the position, coordinate by coordinate, with the \<open>+\<close> of \<^verbatim>\<open>LayoutUnit\<close>.
\<close>

definition moveBy :: "('u::plus) Position \<Rightarrow> 'u Position \<Rightarrow> 'u Position" where
  "moveBy p offset = \<lparr>x_pos = x_pos p + x_pos offset, y_pos = y_pos p + y_pos offset\<rparr>"

record 'u HorizontalEdges =
  left :: 'u
  right :: 'u

text \<open>\<^verbatim>\<open>VerticalEdges { top, bottom }\<close>; \<open>top\<close> is a constant of HOL, hence the suffix.\<close>

record 'u VerticalEdges =
  top_edge :: 'u
  bottom_edge :: 'u

record 'u Edges =
  horizontal :: "'u HorizontalEdges"
  vertical :: "'u VerticalEdges"

text \<open>
  The solutions of the Geometry collaborator. \<^verbatim>\<open>WidthAndMargin\<close> and
  \<^verbatim>\<open>HeightAndMargin\<close> both have a member \<^verbatim>\<open>margin\<close>, \<^verbatim>\<open>HorizontalGeometry\<close> has
  \<^verbatim>\<open>left\<close> and \<^verbatim>\<open>right\<close> like the edges, \<^verbatim>\<open>VerticalGeometry\<close> has \<^verbatim>\<open>top\<close> and
  \<^verbatim>\<open>bottom\<close>: the prefixes \<open>w_\<close>, \<open>h_\<close>, \<open>hg_\<close> and \<open>vg_\<close> keep them apart.
\<close>

record 'u WidthAndMargin =
  width :: 'u
  w_margin :: "'u HorizontalEdges"
  nonComputedMargin :: "'u HorizontalEdges"

record 'u HorizontalGeometry =
  hg_left :: 'u
  hg_right :: 'u
  widthAndMargin :: "'u WidthAndMargin"

record 'u HeightAndMargin =
  height :: 'u
  h_margin :: "'u VerticalEdges"
  collapsedMargin :: "'u VerticalEdges option"

record 'u VerticalGeometry =
  vg_top :: 'u
  vg_bottom :: 'u
  heightAndMargin :: "'u HeightAndMargin"

subsection \<open>Display::Box, the per-box geometry record\<close>

text \<open>
  Modelled from the spec: \<^verbatim>\<open>Display::Box\<close> (DisplayBox.h) is declared outside the file.
  Its fields are the spec's ComputedBox: top-left position, content-box width and height,
  margins, the record of non-computed horizontal margins and of the non-collapsed vertical
  margin, border, and padding (optional). A field is named after its getter; a setter
  stores its argument in the field it names.
\<close>

record 'u DisplayBox =
  topLeft :: "'u Position"
  contentBoxWidth :: 'u
  contentBoxHeight :: 'u
  horizontalMargin :: "'u HorizontalEdges"
  verticalMargin :: "'u VerticalEdges"
  horizontalNonComputedMargin :: "'u HorizontalEdges"
  verticalNonCollapsedMargin :: "'u VerticalEdges"
  border :: "'u Edges"
  padding :: "'u Edges option"

definition setTopLeft :: "'u Position \<Rightarrow> 'u DisplayBox \<Rightarrow> 'u DisplayBox" where
  "setTopLeft p d = d\<lparr>topLeft := p\<rparr>"

definition setLeft :: "'u \<Rightarrow> 'u DisplayBox \<Rightarrow> 'u DisplayBox" where
  "setLeft v d = d\<lparr>topLeft := (topLeft d)\<lparr>x_pos := v\<rparr>\<rparr>"

definition setTop :: "'u \<Rightarrow> 'u DisplayBox \<Rightarrow> 'u DisplayBox" where
  "setTop v d = d\<lparr>topLeft := (topLeft d)\<lparr>y_pos := v\<rparr>\<rparr>"

definition setContentBoxWidth :: "'u \<Rightarrow> 'u DisplayBox \<Rightarrow> 'u DisplayBox" where
  "setContentBoxWidth v d = d\<lparr>contentBoxWidth := v\<rparr>"

definition setContentBoxHeight :: "'u \<Rightarrow> 'u DisplayBox \<Rightarrow> 'u DisplayBox" where
  "setContentBoxHeight v d = d\<lparr>contentBoxHeight := v\<rparr>"

definition setHorizontalMargin :: "'u HorizontalEdges \<Rightarrow> 'u DisplayBox \<Rightarrow> 'u DisplayBox" where
  "setHorizontalMargin m d = d\<lparr>horizontalMargin := m\<rparr>"

definition setVerticalMargin :: "'u VerticalEdges \<Rightarrow> 'u DisplayBox \<Rightarrow> 'u DisplayBox" where
  "setVerticalMargin m d = d\<lparr>verticalMargin := m\<rparr>"

definition setHorizontalNonComputedMargin ::
  "'u HorizontalEdges \<Rightarrow> 'u DisplayBox \<Rightarrow> 'u DisplayBox" where
  "setHorizontalNonComputedMargin m d = d\<lparr>horizontalNonComputedMargin := m\<rparr>"

definition setVerticalNonCollapsedMargin ::
  "'u VerticalEdges \<Rightarrow> 'u DisplayBox \<Rightarrow> 'u DisplayBox" where
  "setVerticalNonCollapsedMargin m d = d\<lparr>verticalNonCollapsedMargin := m\<rparr>"

definition setBorder :: "'u Edges \<Rightarrow> 'u DisplayBox \<Rightarrow> 'u DisplayBox" where
  "setBorder e d = d\<lparr>border := e\<rparr>"

definition setPadding :: "'u Edges option \<Rightarrow> 'u DisplayBox \<Rightarrow> 'u DisplayBox" where
  "setPadding e d = d\<lparr>padding := e\<rparr>"

subsection \<open>The layout tree\<close>

text \<open>
  What the file asks of a \<^verbatim>\<open>Layout::Box\<close>: its style's \<^verbatim>\<open>logicalMaxWidth()\<close> and
  \<^verbatim>\<open>logicalMinWidth()\<close>, the classifications, \<^verbatim>\<open>containingBlock()\<close> (a pointer, null
  for the initial containing block), and, of a \<^verbatim>\<open>Container\<close>, \<^verbatim>\<open>hasChild()\<close> and
  \<^verbatim>\<open>outOfFlowDescendants()\<close> in insertion order. The tree is built elsewhere; here it
  is a table from box identities to these facts.
\<close>

record 'l RenderStyle =
  logicalMaxWidth :: 'l
  logicalMinWidth :: 'l

record 'l LayoutBox =
  style :: "'l RenderStyle"
  isPositioned :: bool
  isInitialContainingBlock :: bool
  isContainer :: bool
  hasChild :: bool
  outOfFlowDescendants :: "box_id list"
  containingBlock :: "box_id option"
  establishesFormattingContext :: bool

type_synonym 'l LayoutTree = "box_id \<Rightarrow> 'l LayoutBox"

subsection \<open>LayoutContext and the collaborators\<close>

text \<open>
  Of \<^verbatim>\<open>LayoutContext\<close> the map from boxes to their \<^verbatim>\<open>Display::Box\<close> is modelled; the
  formatting contexts and formatting states it also keeps are touched only through
  \<^verbatim>\<open>formattingContext\<close>, \<^verbatim>\<open>createFormattingStateForFormattingRootIfNeeded\<close> and the
  formatting context's \<^verbatim>\<open>layout\<close>, which are one opaque collaborator below.
\<close>

type_synonym 'u LayoutContext = "box_id \<rightharpoonup> 'u DisplayBox"

text \<open>
  The code declared outside the file, taken as parameters: the \<^verbatim>\<open>Geometry\<close> functions
  (stateless, so functions of the context they read), the formatting context's layout (any
  transformation of the context), the record a box gets on first access, the tree query
  \<^verbatim>\<open>isDescendantOf\<close>, and whether \<^verbatim>\<open>ASSERT\<close> is compiled in (a debug build).
\<close>

record ('u, 'l) Collaborators =
  outOfFlowHorizontalGeometry ::
    "'u LayoutContext \<Rightarrow> box_id \<Rightarrow> 'u option \<Rightarrow> 'u HorizontalGeometry"
  outOfFlowVerticalGeometry ::
    "'u LayoutContext \<Rightarrow> box_id \<Rightarrow> 'u option \<Rightarrow> 'u VerticalGeometry"
  computedValueIfNotAuto :: "'l \<Rightarrow> 'u \<Rightarrow> 'u option"
  computedMaxHeight :: "'u LayoutContext \<Rightarrow> box_id \<Rightarrow> 'u option"
  computedMinHeight :: "'u LayoutContext \<Rightarrow> box_id \<Rightarrow> 'u option"
  computedBorder :: "'u LayoutContext \<Rightarrow> box_id \<Rightarrow> 'u Edges"
  computedPadding :: "'u LayoutContext \<Rightarrow> box_id \<Rightarrow> 'u Edges option"
  formattingContextLayout :: "'u LayoutContext \<Rightarrow> box_id \<Rightarrow> 'u LayoutContext"
  newDisplayBox :: "box_id \<Rightarrow> 'u DisplayBox"
  isDescendantOf :: "box_id \<Rightarrow> box_id \<Rightarrow> bool"
  assertionsEnabled :: bool

text \<open>
  How a call can end without a value: a null \<^verbatim>\<open>containingBlock()\<close> dereferenced, an
  \<^verbatim>\<open>ASSERT\<close> failing in a debug build, the recursion deeper than the stack allows.
\<close>

datatype failure = NullDereference | AssertionFailure | StackExhausted

text \<open>
  Modelled from the spec: \<^verbatim>\<open>LayoutContext::displayBoxForLayoutBox\<close> is defined outside
  the file. There is one record per box, "created lazily on first access": the access
  returns the record of the box, after adding a new one when the box has none.
\<close>

definition displayBoxForLayoutBox ::
  "('u, 'l) Collaborators \<Rightarrow> 'u LayoutContext \<Rightarrow> box_id \<Rightarrow> 'u DisplayBox \<times> 'u LayoutContext" where
  "displayBoxForLayoutBox G layoutContext b =
     (case layoutContext b of
        Some d \<Rightarrow> (d, layoutContext)
      | None \<Rightarrow> (newDisplayBox G b, layoutContext(b \<mapsto> newDisplayBox G b)))"

text \<open>
  What a reference obtained from \<open>displayBoxForLayoutBox\<close> for box \<open>b\<close> denotes in a
  context: the record stored for \<open>b\<close>.
\<close>

definition storedBox ::
  "('u, 'l) Collaborators \<Rightarrow> 'u LayoutContext \<Rightarrow> box_id \<Rightarrow> 'u DisplayBox" where
  "storedBox G layoutContext b = fst (displayBoxForLayoutBox G layoutContext b)"

subsection \<open>The constraint resolver\<close>

text \<open>
  \<^verbatim>\<open>FormattingContext::computeOutOfFlowHorizontalGeometry\<close>. The lambda \<^verbatim>\<open>compute\<close>
  captures the layout context by reference, so each call reads the context as it is
  then; the containing block's record is accessed (and created when missing) after the
  first call. The four setters write through the reference to the box's own record.
\<close>

definition computeOutOfFlowHorizontalGeometry ::
  "('u::{plus,ord}, 'l) Collaborators \<Rightarrow> 'l LayoutTree \<Rightarrow> 'u LayoutContext \<Rightarrow> box_id
     \<Rightarrow> failure + 'u LayoutContext" where
  "computeOutOfFlowHorizontalGeometry G T layoutContext layoutBox =
     (let compute = (\<lambda>ctx usedWidth. outOfFlowHorizontalGeometry G ctx layoutBox usedWidth);
          horizontalGeometry = compute layoutContext None
      in case containingBlock (T layoutBox) of
           None \<Rightarrow> Inl NullDereference
         | Some cb \<Rightarrow>
            (let (cbDisplayBox, layoutContext1) = displayBoxForLayoutBox G layoutContext cb;
                 containingBlockWidth = contentBoxWidth cbDisplayBox;
                 horizontalGeometry =
                   (case computedValueIfNotAuto G (logicalMaxWidth (style (T layoutBox)))
                           containingBlockWidth of
                      None \<Rightarrow> horizontalGeometry
                    | Some maxWidth \<Rightarrow>
                       (let maxHorizontalGeometry = compute layoutContext1 (Some maxWidth)
                        in if width (widthAndMargin horizontalGeometry)
                                > width (widthAndMargin maxHorizontalGeometry)
                           then maxHorizontalGeometry else horizontalGeometry));
                 horizontalGeometry =
                   (case computedValueIfNotAuto G (logicalMinWidth (style (T layoutBox)))
                           containingBlockWidth of
                      None \<Rightarrow> horizontalGeometry
                    | Some minWidth \<Rightarrow>
                       (let minHorizontalGeometry = compute layoutContext1 (Some minWidth)
                        in if width (widthAndMargin horizontalGeometry)
                                < width (widthAndMargin minHorizontalGeometry)
                           then minHorizontalGeometry else horizontalGeometry));
                 (displayBox, layoutContext2) = displayBoxForLayoutBox G layoutContext1 layoutBox;
                 displayBox = setLeft (hg_left horizontalGeometry
                                + left (w_margin (widthAndMargin horizontalGeometry))) displayBox;
                 displayBox = setContentBoxWidth (width (widthAndMargin horizontalGeometry)) displayBox;
                 displayBox = setHorizontalMargin (w_margin (widthAndMargin horizontalGeometry)) displayBox;
                 displayBox = setHorizontalNonComputedMargin
                                (nonComputedMargin (widthAndMargin horizontalGeometry)) displayBox
             in Inr (layoutContext2(layoutBox \<mapsto> displayBox))))"

text \<open>
  \<^verbatim>\<open>FormattingContext::computeOutOfFlowVerticalGeometry\<close>. The \<^verbatim>\<open>ASSERT\<close> stands
  between the setters; a failed assertion ends the program, so the model gives the
  failure and no context.
\<close>

definition computeOutOfFlowVerticalGeometry ::
  "('u::{plus,ord}, 'l) Collaborators \<Rightarrow> 'u LayoutContext \<Rightarrow> box_id \<Rightarrow> failure + 'u LayoutContext" where
  "computeOutOfFlowVerticalGeometry G layoutContext layoutBox =
     (let compute = (\<lambda>usedHeight. outOfFlowVerticalGeometry G layoutContext layoutBox usedHeight);
          verticalGeometry = compute None;
          verticalGeometry =
            (case computedMaxHeight G layoutContext layoutBox of
               None \<Rightarrow> verticalGeometry
             | Some maxHeight \<Rightarrow>
                (let maxVerticalGeometry = compute (Some maxHeight)
                 in if height (heightAndMargin verticalGeometry)
                         > height (heightAndMargin maxVerticalGeometry)
                    then maxVerticalGeometry else verticalGeometry));
          verticalGeometry =
            (case computedMinHeight G layoutContext layoutBox of
               None \<Rightarrow> verticalGeometry
             | Some minHeight \<Rightarrow>
                (let minVerticalGeometry = compute (Some minHeight)
                 in if height (heightAndMargin verticalGeometry)
                         < height (heightAndMargin minVerticalGeometry)
                    then minVerticalGeometry else verticalGeometry));
          (displayBox, layoutContext1) = displayBoxForLayoutBox G layoutContext layoutBox;
          displayBox = setTop (vg_top verticalGeometry
                         + top_edge (h_margin (heightAndMargin verticalGeometry))) displayBox;
          displayBox = setContentBoxHeight (height (heightAndMargin verticalGeometry)) displayBox
      in if assertionsEnabled G \<and> collapsedMargin (heightAndMargin verticalGeometry) \<noteq> None
         then Inl AssertionFailure
         else (let displayBox = setVerticalMargin (h_margin (heightAndMargin verticalGeometry)) displayBox;
                   displayBox = setVerticalNonCollapsedMargin
                                  (h_margin (heightAndMargin verticalGeometry)) displayBox
               in Inr (layoutContext1(layoutBox \<mapsto> displayBox))))"

text \<open>
  \<^verbatim>\<open>FormattingContext::computeBorderAndPadding\<close>: the record is accessed first, the
  border is computed and stored, then the padding is computed (in the context that has
  the border) and stored.
\<close>

definition computeBorderAndPadding ::
  "('u, 'l) Collaborators \<Rightarrow> 'u LayoutContext \<Rightarrow> box_id \<Rightarrow> 'u LayoutContext" where
  "computeBorderAndPadding G layoutContext layoutBox =
     (let (displayBox, layoutContext1) = displayBoxForLayoutBox G layoutContext layoutBox;
          displayBox = setBorder (computedBorder G layoutContext1 layoutBox) displayBox;
          layoutContext2 = layoutContext1(layoutBox \<mapsto> displayBox);
          displayBox = setPadding (computedPadding G layoutContext2 layoutBox) displayBox
      in layoutContext2(layoutBox \<mapsto> displayBox))"

subsection \<open>The out-of-flow traversal engine\<close>

text \<open>
  The calls the loop body of \<^verbatim>\<open>layoutOutOfFlowDescendants\<close> makes for a box, in the
  order of the program text. The traversal returns the calls it made next to the context,
  so that their order can be stated; the calls themselves act on the context only.
\<close>

datatype call =
    CallComputeBorderAndPadding box_id
  | CallComputeOutOfFlowHorizontalGeometry box_id
  | CallFormattingContextLayout box_id
  | CallComputeOutOfFlowVerticalGeometry box_id
  | CallLayoutOutOfFlowDescendants box_id

text \<open>
  \<^verbatim>\<open>FormattingContext::layoutOutOfFlowDescendants\<close> and its range-based \<^verbatim>\<open>for\<close> loop
  (\<open>layoutEachOutOfFlowBox\<close>). The function calls itself on every box of the loop; the
  first argument is the number of nested calls the stack still has room for, and a
  recursive call that finds no room left is \<open>StackExhausted\<close>.
  \<^verbatim>\<open>layoutContext.formattingContext(layoutBox)\<close> (called before the border and padding
  are computed) and \<^verbatim>\<open>createFormattingStateForFormattingRootIfNeeded\<close> work on the
  formatting contexts and states of the layout context, outside the map of records; with
  \<^verbatim>\<open>formattingContext->layout\<close>, which may change any record, they are the collaborator
  \<open>formattingContextLayout\<close>, placed where the layout runs.
\<close>

fun layoutOutOfFlowDescendants ::
  "nat \<Rightarrow> ('u::{plus,ord}, 'l) Collaborators \<Rightarrow> 'l LayoutTree \<Rightarrow> 'u LayoutContext \<Rightarrow> box_id
     \<Rightarrow> failure + call list \<times> 'u LayoutContext"
and layoutEachOutOfFlowBox ::
  "nat \<Rightarrow> ('u, 'l) Collaborators \<Rightarrow> 'l LayoutTree \<Rightarrow> 'u LayoutContext \<Rightarrow> box_id list
     \<Rightarrow> failure + call list \<times> 'u LayoutContext" where
  "layoutOutOfFlowDescendants depth G T layoutContext layoutBox =
     (if \<not> isPositioned (T layoutBox) \<and> \<not> isInitialContainingBlock (T layoutBox)
      then Inr ([], layoutContext)
      else if \<not> isContainer (T layoutBox) then Inr ([], layoutContext)
      else if \<not> hasChild (T layoutBox) then Inr ([], layoutContext)
      else layoutEachOutOfFlowBox depth G T layoutContext (outOfFlowDescendants (T layoutBox)))"
| "layoutEachOutOfFlowBox depth G T layoutContext [] = Inr ([], layoutContext)"
| "layoutEachOutOfFlowBox depth G T layoutContext (layoutBox # rest) =
     (if assertionsEnabled G \<and> \<not> establishesFormattingContext (T layoutBox)
      then Inl AssertionFailure
      else
        (let layoutContext1 = computeBorderAndPadding G layoutContext layoutBox
         in case computeOutOfFlowHorizontalGeometry G T layoutContext1 layoutBox of
              Inl e \<Rightarrow> Inl e
            | Inr layoutContext2 \<Rightarrow>
               (let layoutContext3 = formattingContextLayout G layoutContext2 layoutBox
                in case computeOutOfFlowVerticalGeometry G layoutContext3 layoutBox of
                     Inl e \<Rightarrow> Inl e
                   | Inr layoutContext4 \<Rightarrow>
                      (case depth of
                         0 \<Rightarrow> Inl StackExhausted
                       | Suc deeper \<Rightarrow>
                          (case layoutOutOfFlowDescendants deeper G T layoutContext4 layoutBox of
                             Inl e \<Rightarrow> Inl e
                           | Inr (nested, layoutContext5) \<Rightarrow>
                              (case layoutEachOutOfFlowBox depth G T layoutContext5 rest of
                                 Inl e \<Rightarrow> Inl e
                               | Inr (later, layoutContext6) \<Rightarrow>
                                   Inr ([CallComputeBorderAndPadding layoutBox,
                                         CallComputeOutOfFlowHorizontalGeometry layoutBox,
                                         CallFormattingContextLayout layoutBox,
                                         CallComputeOutOfFlowVerticalGeometry layoutBox,
                                         CallLayoutOutOfFlowDescendants layoutBox]
                                        @ nested @ later, layoutContext6)))))))"

subsection \<open>The coordinate mapper\<close>

text \<open>
  The \<^verbatim>\<open>for\<close> loop of \<^verbatim>\<open>mapBoxToAncestor\<close>: it walks \<^verbatim>\<open>containingBlock()\<close> pointers
  until the pointer is null or the ancestor, moving the position by the top-left of every
  record it passes (accessing a record creates it when missing). It returns the position,
  the pointer it stopped at and the context. A chain of containing blocks that comes back
  to itself keeps the loop running for ever: the value is then \<open>None\<close>.
\<close>

partial_function (option) mapBoxToAncestor_loop ::
  "('u::plus, 'l) Collaborators \<Rightarrow> 'l LayoutTree \<Rightarrow> box_id \<Rightarrow> 'u LayoutContext \<Rightarrow> 'u Position
     \<Rightarrow> box_id option \<Rightarrow> ('u Position \<times> box_id option \<times> 'u LayoutContext) option" where
  "mapBoxToAncestor_loop G T ancestor layoutContext position container =
     (case container of
        None \<Rightarrow> Some (position, None, layoutContext)
      | Some c \<Rightarrow>
         if c = ancestor then Some (position, Some c, layoutContext)
         else (case displayBoxForLayoutBox G layoutContext c of
                 (displayBox, layoutContext1) \<Rightarrow>
                   mapBoxToAncestor_loop G T ancestor layoutContext1
                     (moveBy position (topLeft displayBox)) (containingBlock (T c))))"

text \<open>
  \<^verbatim>\<open>FormattingContext::mapBoxToAncestor\<close>. \<^verbatim>\<open>displayBox\<close> is a reference to the box's
  record in the context: \<^verbatim>\<open>Display::Box(displayBox)\<close> copies the record as it is after
  the loop. \<^verbatim>\<open>ASSERT_NOT_REACHED\<close> ends a debug build and is nothing otherwise.
\<close>

definition mapBoxToAncestor ::
  "('u::plus, 'l) Collaborators \<Rightarrow> 'l LayoutTree \<Rightarrow> 'u LayoutContext \<Rightarrow> box_id \<Rightarrow> box_id
     \<Rightarrow> (failure + 'u DisplayBox \<times> 'u LayoutContext) option" where
  "mapBoxToAncestor G T layoutContext layoutBox ancestor =
     (if assertionsEnabled G \<and> \<not> isDescendantOf G layoutBox ancestor
      then Some (Inl AssertionFailure)
      else
        (case displayBoxForLayoutBox G layoutContext layoutBox of
           (displayBox, layoutContext1) \<Rightarrow>
             (case mapBoxToAncestor_loop G T ancestor layoutContext1 (topLeft displayBox)
                     (containingBlock (T layoutBox)) of
                None \<Rightarrow> None
              | Some (position, container, layoutContext2) \<Rightarrow>
                 (case container of
                    None \<Rightarrow>
                      if assertionsEnabled G then Some (Inl AssertionFailure)
                      else Some (Inr (storedBox G layoutContext2 layoutBox, layoutContext2))
                  | Some c \<Rightarrow>
                      Some (Inr (setTopLeft position (storedBox G layoutContext2 layoutBox),
                                 layoutContext2))))))"

text \<open>The \<^verbatim>\<open>for\<close> loop of \<^verbatim>\<open>mapCoordinateToAncestor\<close>, the same walk.\<close>

partial_function (option) mapCoordinateToAncestor_loop ::
  "('u::plus, 'l) Collaborators \<Rightarrow> 'l LayoutTree \<Rightarrow> box_id \<Rightarrow> 'u LayoutContext \<Rightarrow> 'u Position
     \<Rightarrow> box_id option \<Rightarrow> ('u Position \<times> box_id option \<times> 'u LayoutContext) option" where
  "mapCoordinateToAncestor_loop G T ancestor layoutContext mappedPosition container =
     (case container of
        None \<Rightarrow> Some (mappedPosition, None, layoutContext)
      | Some c \<Rightarrow>
         if c = ancestor then Some (mappedPosition, Some c, layoutContext)
         else (case displayBoxForLayoutBox G layoutContext c of
                 (displayBox, layoutContext1) \<Rightarrow>
                   mapCoordinateToAncestor_loop G T ancestor layoutContext1
                     (moveBy mappedPosition (topLeft displayBox)) (containingBlock (T c))))"

text \<open>
  \<^verbatim>\<open>FormattingContext::mapCoordinateToAncestor\<close>; \<^verbatim>\<open>containingBlock\<close> is a reference,
  so the walk starts at a box.
\<close>

definition mapCoordinateToAncestor ::
  "('u::plus, 'l) Collaborators \<Rightarrow> 'l LayoutTree \<Rightarrow> 'u LayoutContext \<Rightarrow> 'u Position \<Rightarrow> box_id
     \<Rightarrow> box_id \<Rightarrow> (failure + 'u Position \<times> 'u LayoutContext) option" where
  "mapCoordinateToAncestor G T layoutContext position containingBlock' ancestor =
     (case mapCoordinateToAncestor_loop G T ancestor layoutContext position
             (Some containingBlock') of
        None \<Rightarrow> None
      | Some (mappedPosition, container, layoutContext1) \<Rightarrow>
         (case container of
            None \<Rightarrow>
              if assertionsEnabled G then Some (Inl AssertionFailure)
              else Some (Inr (position, layoutContext1))
          | Some c \<Rightarrow> Some (Inr (mappedPosition, layoutContext1))))"

text \<open>\<^verbatim>\<open>FormattingContext::mapTopLeftToAncestor\<close>.\<close>

definition mapTopLeftToAncestor ::
  "('u::plus, 'l) Collaborators \<Rightarrow> 'l LayoutTree \<Rightarrow> 'u LayoutContext \<Rightarrow> box_id \<Rightarrow> box_id
     \<Rightarrow> (failure + 'u Position \<times> 'u LayoutContext) option" where
  "mapTopLeftToAncestor G T layoutContext layoutBox ancestor =
     (if assertionsEnabled G \<and> \<not> isDescendantOf G layoutBox ancestor
      then Some (Inl AssertionFailure)
      else
        (case displayBoxForLayoutBox G layoutContext layoutBox of
           (displayBox, layoutContext1) \<Rightarrow>
             (case containingBlock (T layoutBox) of
                None \<Rightarrow> Some (Inl NullDereference)
              | Some cb \<Rightarrow>
                  mapCoordinateToAncestor G T layoutContext1 (topLeft displayBox) cb ancestor)))"

subsection \<open>The words of the specification\<close>

text \<open>
  The selection of section 4.1, steps 1 to 3, written from the specification's words:
  the working solution starts as the unconstrained one; the max-constrained solution
  replaces it when the unconstrained width exceeds the max-constrained width; then the
  min-constrained solution replaces the working solution when the working width is less
  than the min-constrained width. A candidate is absent when its constraint is "auto".
\<close>

definition workingSolution ::
  "('u::ord) HorizontalGeometry \<Rightarrow> 'u HorizontalGeometry option \<Rightarrow> 'u HorizontalGeometry option
     \<Rightarrow> 'u HorizontalGeometry" where
  "workingSolution unconstrained maxConstrained minConstrained =
     (let afterMax =
            (case maxConstrained of
               None \<Rightarrow> unconstrained
             | Some s \<Rightarrow>
                 if width (widthAndMargin s) < width (widthAndMargin unconstrained)
                 then s else unconstrained)
      in case minConstrained of
           None \<Rightarrow> afterMax
         | Some s \<Rightarrow>
             if width (widthAndMargin afterMax) < width (widthAndMargin s) then s else afterMax)"

text \<open>
  Names for what the horizontal resolver computes on the way: the context in which the
  constrained solutions are computed (the containing block's record has been accessed),
  the max-width and min-width resolved against the containing block's content-box width,
  and the solution with a used width fixed.
\<close>

definition contextAtConstraints ::
  "('u, 'l) Collaborators \<Rightarrow> 'u LayoutContext \<Rightarrow> box_id \<Rightarrow> 'u LayoutContext" where
  "contextAtConstraints G layoutContext cb = snd (displayBoxForLayoutBox G layoutContext cb)"

definition resolvedMaxWidth ::
  "('u, 'l) Collaborators \<Rightarrow> 'l LayoutTree \<Rightarrow> 'u LayoutContext \<Rightarrow> box_id \<Rightarrow> box_id \<Rightarrow> 'u option" where
  "resolvedMaxWidth G T layoutContext b cb =
     computedValueIfNotAuto G (logicalMaxWidth (style (T b)))
       (contentBoxWidth (storedBox G layoutContext cb))"

definition resolvedMinWidth ::
  "('u, 'l) Collaborators \<Rightarrow> 'l LayoutTree \<Rightarrow> 'u LayoutContext \<Rightarrow> box_id \<Rightarrow> box_id \<Rightarrow> 'u option" where
  "resolvedMinWidth G T layoutContext b cb =
     computedValueIfNotAuto G (logicalMinWidth (style (T b)))
       (contentBoxWidth (storedBox G layoutContext cb))"

definition constrainedSolution ::
  "('u, 'l) Collaborators \<Rightarrow> 'u LayoutContext \<Rightarrow> box_id \<Rightarrow> box_id \<Rightarrow> 'u \<Rightarrow> 'u HorizontalGeometry" where
  "constrainedSolution G layoutContext b cb usedWidth =
     outOfFlowHorizontalGeometry G (contextAtConstraints G layoutContext cb) b (Some usedWidth)"

text \<open>
  Section 4.2 "mirrors 4.1 for height/margin using max-height/min-height": the same
  selection on vertical solutions, and the solution it selects for a box from the
  collaborator's candidates.
\<close>

definition workingVerticalSolution ::
  "('u::ord) VerticalGeometry \<Rightarrow> 'u VerticalGeometry option \<Rightarrow> 'u VerticalGeometry option
     \<Rightarrow> 'u VerticalGeometry" where
  "workingVerticalSolution unconstrained maxConstrained minConstrained =
     (let afterMax =
            (case maxConstrained of
               None \<Rightarrow> unconstrained
             | Some s \<Rightarrow>
                 if height (heightAndMargin s) < height (heightAndMargin unconstrained)
                 then s else unconstrained)
      in case minConstrained of
           None \<Rightarrow> afterMax
         | Some s \<Rightarrow>
             if height (heightAndMargin afterMax) < height (heightAndMargin s) then s else afterMax)"

definition selectedVerticalGeometry ::
  "('u::ord, 'l) Collaborators \<Rightarrow> 'u LayoutContext \<Rightarrow> box_id \<Rightarrow> 'u VerticalGeometry" where
  "selectedVerticalGeometry G layoutContext b =
     workingVerticalSolution (outOfFlowVerticalGeometry G layoutContext b None)
       (map_option (\<lambda>h. outOfFlowVerticalGeometry G layoutContext b (Some h))
          (computedMaxHeight G layoutContext b))
       (map_option (\<lambda>h. outOfFlowVerticalGeometry G layoutContext b (Some h))
          (computedMinHeight G layoutContext b))"

text \<open>
  The chain of containing blocks of section 4.6, written from the specification's words:
  \<open>containingBlockChain T ancestor start cs stop\<close> holds when following
  \<^verbatim>\<open>containingBlock()\<close> from the pointer \<open>start\<close> passes the boxes \<open>cs\<close>, innermost
  first, none of them the ancestor, and then comes to \<open>stop\<close>: the ancestor, or null
  when the chain ends without meeting it. A box is a descendant of the ancestor when the
  chain from its containing block stops at the ancestor.
\<close>

inductive containingBlockChain ::
  "'l LayoutTree \<Rightarrow> box_id \<Rightarrow> box_id option \<Rightarrow> box_id list \<Rightarrow> box_id option \<Rightarrow> bool"
  for T :: "'l LayoutTree" and ancestor :: box_id where
    chain_null: "containingBlockChain T ancestor None [] None"
  | chain_ancestor: "containingBlockChain T ancestor (Some ancestor) [] (Some ancestor)"
  | chain_step:
      "c \<noteq> ancestor \<Longrightarrow> containingBlockChain T ancestor (containingBlock (T c)) cs stop
        \<Longrightarrow> containingBlockChain T ancestor (Some c) (c # cs) stop"

text \<open>
  The context after the records of the boxes \<open>bs\<close> have been accessed in turn, and a
  position moved by the stored top-left of each box of \<open>cs\<close> in turn.
\<close>

definition accessed ::
  "('u, 'l) Collaborators \<Rightarrow> 'u LayoutContext \<Rightarrow> box_id list \<Rightarrow> 'u LayoutContext" where
  "accessed G layoutContext bs =
     foldl (\<lambda>ctx b. snd (displayBoxForLayoutBox G ctx b)) layoutContext bs"

definition movedAlong ::
  "('u::plus, 'l) Collaborators \<Rightarrow> 'u LayoutContext \<Rightarrow> 'u Position \<Rightarrow> box_id list \<Rightarrow> 'u Position" where
  "movedAlong G layoutContext position cs =
     foldl moveBy position (map (\<lambda>c. topLeft (storedBox G layoutContext c)) cs)"

text \<open>
  The order of section 4.4, written from the specification's words. The out-of-flow boxes
  below a container are a forest: a node is an out-of-flow box, below it the out-of-flow
  boxes it is the containing block of. \<open>describesOutOfFlow T (OofNode b sub)\<close> holds
  when the roots of \<open>sub\<close> are the boxes the traversal visits for \<open>b\<close>, in the
  insertion order of the set (none when \<open>b\<close> is not processed: not positioned and not the
  initial containing block, or not a container, or without a child), and every tree of
  \<open>sub\<close> describes its own root in the same way.
\<close>

datatype oofTree = OofNode (rootBox: box_id) (subtrees: "oofTree list")

definition visitedDescendants :: "'l LayoutTree \<Rightarrow> box_id \<Rightarrow> box_id list" where
  "visitedDescendants T b =
     (if (isPositioned (T b) \<or> isInitialContainingBlock (T b)) \<and> isContainer (T b) \<and> hasChild (T b)
      then outOfFlowDescendants (T b) else [])"

fun describesOutOfFlow :: "'l LayoutTree \<Rightarrow> oofTree \<Rightarrow> bool" where
  "describesOutOfFlow T (OofNode b sub) =
     (map rootBox sub = visitedDescendants T b \<and> list_all (describesOutOfFlow T) sub)"

text \<open>
  "Per-descendant steps, in order", "depth-first": the five calls for a box, then the
  calls for the forest below it, then the calls for its later siblings.
\<close>

fun depthFirstCalls :: "oofTree list \<Rightarrow> call list" where
  "depthFirstCalls [] = []"
| "depthFirstCalls (OofNode b sub # rest) =
     [CallComputeBorderAndPadding b,
      CallComputeOutOfFlowHorizontalGeometry b,
      CallFormattingContextLayout b,
      CallComputeOutOfFlowVerticalGeometry b,
      CallLayoutOutOfFlowDescendants b]
     @ depthFirstCalls sub @ depthFirstCalls rest"

text \<open>How deep the recursion goes on a forest, and the boxes of a forest.\<close>

fun nestingDepth :: "oofTree list \<Rightarrow> nat" where
  "nestingDepth [] = 0"
| "nestingDepth (OofNode b sub # rest) = max (Suc (nestingDepth sub)) (nestingDepth rest)"

fun boxesOf :: "oofTree list \<Rightarrow> box_id list" where
  "boxesOf [] = []"
| "boxesOf (OofNode b sub # rest) = b # boxesOf sub @ boxesOf rest"

text \<open>
  What a call does to the context. The recursive call does nothing of its own: what it
  does is the calls that follow it.
\<close>

fun applyCall ::
  "('u::{plus,ord}, 'l) Collaborators \<Rightarrow> 'l LayoutTree \<Rightarrow> 'u LayoutContext \<Rightarrow> call
     \<Rightarrow> 'u LayoutContext" where
  "applyCall G T ctx (CallComputeBorderAndPadding b) = computeBorderAndPadding G ctx b"
| "applyCall G T ctx (CallComputeOutOfFlowHorizontalGeometry b) =
     (case computeOutOfFlowHorizontalGeometry G T ctx b of Inl e \<Rightarrow> ctx | Inr ctx' \<Rightarrow> ctx')"
| "applyCall G T ctx (CallFormattingContextLayout b) = formattingContextLayout G ctx b"
| "applyCall G T ctx (CallComputeOutOfFlowVerticalGeometry b) =
     (case computeOutOfFlowVerticalGeometry G ctx b of Inl e \<Rightarrow> ctx | Inr ctx' \<Rightarrow> ctx')"
| "applyCall G T ctx (CallLayoutOutOfFlowDescendants b) = ctx"

text \<open>
  The steps for a box cannot fail: its containing block is not null, and in a debug
  build it establishes a formatting context and its vertical solutions carry no
  collapsed margin.
\<close>

definition stepsSucceed :: "('u::{plus,ord}, 'l) Collaborators \<Rightarrow> 'l LayoutTree \<Rightarrow> box_id \<Rightarrow> bool" where
  "stepsSucceed G T b =
     (containingBlock (T b) \<noteq> None \<and>
      (assertionsEnabled G \<longrightarrow>
         establishesFormattingContext (T b) \<and>
         (\<forall>ctx usedHeight. collapsedMargin (heightAndMargin
              (outOfFlowVerticalGeometry G ctx b usedHeight)) = None)))"

subsection \<open>A concrete tree, context and collaborators\<close>

text \<open>
  Box 0 is the initial containing block, 800 wide, with the out-of-flow boxes 2 and 3;
  box 2 (max-width 400, min-width 600) is the containing block of box 4, and box 4 of
  box 5 and of every further box; box 3 has max-width 400 and no min-width, and no
  record in the context yet. The horizontal solver pins the
  right edge: the unconstrained solution is 800 wide at left 0, a solution of used width
  \<open>w\<close> is at left \<open>800 - w\<close>.
\<close>

definition zeroHorizontalEdges :: "int HorizontalEdges" where
  "zeroHorizontalEdges = \<lparr>left = 0, right = 0\<rparr>"

definition zeroVerticalEdges :: "int VerticalEdges" where
  "zeroVerticalEdges = \<lparr>top_edge = 0, bottom_edge = 0\<rparr>"

definition exampleDisplayBox :: "int \<Rightarrow> int \<Rightarrow> int \<Rightarrow> int DisplayBox" where
  "exampleDisplayBox x y w =
     \<lparr>topLeft = \<lparr>x_pos = x, y_pos = y\<rparr>, contentBoxWidth = w, contentBoxHeight = 0,
      horizontalMargin = zeroHorizontalEdges, verticalMargin = zeroVerticalEdges,
      horizontalNonComputedMargin = zeroHorizontalEdges,
      verticalNonCollapsedMargin = \<lparr>top_edge = 7, bottom_edge = 7\<rparr>,
      border = \<lparr>horizontal = zeroHorizontalEdges, vertical = zeroVerticalEdges\<rparr>,
      padding = None\<rparr>"

definition exampleBox ::
  "int option \<Rightarrow> int option \<Rightarrow> bool \<Rightarrow> box_id list \<Rightarrow> box_id option \<Rightarrow> int option LayoutBox" where
  "exampleBox maxWidth minWidth positioned descendants cb =
     \<lparr>style = \<lparr>logicalMaxWidth = maxWidth, logicalMinWidth = minWidth\<rparr>,
      isPositioned = positioned, isInitialContainingBlock = \<not> positioned,
      isContainer = True, hasChild = (descendants \<noteq> []),
      outOfFlowDescendants = descendants, containingBlock = cb,
      establishesFormattingContext = True\<rparr>"

definition exampleTree :: "int option LayoutTree" where
  "exampleTree b =
     (if b = 0 then exampleBox None None False [2, 3] None
      else if b = 2 then exampleBox (Some 400) (Some 600) True [4] (Some 0)
      else if b = 3 then exampleBox (Some 400) None True [] (Some 0)
      else if b = 4 then exampleBox None None True [5] (Some 2)
      else exampleBox None None True [] (Some 4))"

definition exampleCollaborators :: "(int, int option) Collaborators" where
  "exampleCollaborators =
     \<lparr>outOfFlowHorizontalGeometry = (\<lambda>ctx b usedWidth.
        (case usedWidth of
           None \<Rightarrow> \<lparr>hg_left = 0, hg_right = 0,
                     widthAndMargin = \<lparr>width = 800, w_margin = zeroHorizontalEdges,
                                       nonComputedMargin = zeroHorizontalEdges\<rparr>\<rparr>
         | Some w \<Rightarrow> \<lparr>hg_left = 800 - w, hg_right = 0,
                       widthAndMargin = \<lparr>width = w, w_margin = zeroHorizontalEdges,
                                         nonComputedMargin = zeroHorizontalEdges\<rparr>\<rparr>)),
      outOfFlowVerticalGeometry = (\<lambda>ctx b usedHeight.
        \<lparr>vg_top = 5, vg_bottom = 0,
         heightAndMargin = \<lparr>height = (case usedHeight of None \<Rightarrow> 100 | Some h \<Rightarrow> h),
                             h_margin = \<lparr>top_edge = 1, bottom_edge = 2\<rparr>,
                             collapsedMargin = None\<rparr>\<rparr>),
      computedValueIfNotAuto = (\<lambda>l w. l),
      computedMaxHeight = (\<lambda>ctx b. None),
      computedMinHeight = (\<lambda>ctx b. None),
      computedBorder = (\<lambda>ctx b. \<lparr>horizontal = zeroHorizontalEdges, vertical = zeroVerticalEdges\<rparr>),
      computedPadding = (\<lambda>ctx b. None),
      formattingContextLayout = (\<lambda>ctx b. ctx),
      newDisplayBox = (\<lambda>b. exampleDisplayBox 0 0 0),
      isDescendantOf = (\<lambda>b a. a = 0 \<and> 0 < b \<or> a = 2 \<and> 4 \<le> b \<or> a = 4 \<and> 5 \<le> b),
      assertionsEnabled = True\<rparr>"

definition exampleContext :: "int LayoutContext" where
  "exampleContext = [0 \<mapsto> exampleDisplayBox 0 0 800, 2 \<mapsto> exampleDisplayBox 10 20 300,
                     4 \<mapsto> exampleDisplayBox 1 2 50, 5 \<mapsto> exampleDisplayBox 100 200 10]"

section \<open>Properties\<close>

subsection \<open>Access to the records\<close>

lemma storedBox_upd_same: "storedBox G (ctx(b \<mapsto> d)) b = d"
  by (simp add: storedBox_def displayBoxForLayoutBox_def)

lemma storedBox_upd_other: "k \<noteq> b \<Longrightarrow> storedBox G (ctx(b \<mapsto> d)) k = storedBox G ctx k"
  by (simp add: storedBox_def displayBoxForLayoutBox_def split: option.splits)

lemma displayBoxForLayoutBox_fst: "fst (displayBoxForLayoutBox G ctx b) = storedBox G ctx b"
  by (simp add: storedBox_def)

lemma storedBox_after_access:
  "storedBox G (snd (displayBoxForLayoutBox G ctx k)) b = storedBox G ctx b"
  by (simp add: storedBox_def displayBoxForLayoutBox_def split: option.splits)

subsection \<open>The horizontal resolver\<close>

text \<open>
  What \<open>computeOutOfFlowHorizontalGeometry\<close> does for a box with a containing block: it
  returns, and the record of the box is the one it had with left, content-box width,
  margin and non-computed margin taken from the working solution.
\<close>

lemma horizontal_result:
  fixes G :: "('u::{plus,ord}, 'l) Collaborators"
  assumes "containingBlock (T b) = Some cb"
  shows "\<exists>ctx'. computeOutOfFlowHorizontalGeometry G T layoutContext b = Inr ctx' \<and>
     storedBox G ctx' b =
       (let sel = workingSolution (outOfFlowHorizontalGeometry G layoutContext b None)
                    (map_option (constrainedSolution G layoutContext b cb) (resolvedMaxWidth G T layoutContext b cb))
                    (map_option (constrainedSolution G layoutContext b cb) (resolvedMinWidth G T layoutContext b cb))
        in (storedBox G layoutContext b)
             \<lparr>topLeft := (topLeft (storedBox G layoutContext b))
                  \<lparr>x_pos := hg_left sel + left (w_margin (widthAndMargin sel))\<rparr>,
              contentBoxWidth := width (widthAndMargin sel),
              horizontalMargin := w_margin (widthAndMargin sel),
              horizontalNonComputedMargin := nonComputedMargin (widthAndMargin sel)\<rparr>)"
  using assms
  apply (simp add: computeOutOfFlowHorizontalGeometry_def Let_def split_beta storedBox_upd_same
     displayBoxForLayoutBox_fst storedBox_after_access workingSolution_def constrainedSolution_def
     resolvedMaxWidth_def resolvedMinWidth_def contextAtConstraints_def
     setLeft_def setContentBoxWidth_def setHorizontalMargin_def setHorizontalNonComputedMargin_def
     split: option.splits)
  done

lemmas example_defs = exampleCollaborators_def exampleTree_def exampleContext_def exampleBox_def
  exampleDisplayBox_def zeroHorizontalEdges_def zeroVerticalEdges_def

lemmas horizontal_defs = constrainedSolution_def resolvedMaxWidth_def resolvedMinWidth_def
  contextAtConstraints_def storedBox_def displayBoxForLayoutBox_def

text \<open>
  C1. When max-width and min-width both resolve and the max-constrained solution is
  narrower than the min-constrained one, the content-box width written is the
  min-constrained solution's: the min comparison is made after the max comparison, against
  the working solution, which is then at most as wide as the max-constrained one.
\<close>

theorem min_width_dominates_max_width:
  fixes G :: "('u::{plus,linorder}, 'l) Collaborators"
  assumes "containingBlock (T b) = Some cb"
    and "resolvedMaxWidth G T layoutContext b cb = Some maxWidth"
    and "resolvedMinWidth G T layoutContext b cb = Some minWidth"
    and "width (widthAndMargin (constrainedSolution G layoutContext b cb maxWidth))
           < width (widthAndMargin (constrainedSolution G layoutContext b cb minWidth))"
  shows "\<exists>layoutContext'.
           computeOutOfFlowHorizontalGeometry G T layoutContext b = Inr layoutContext' \<and>
           contentBoxWidth (storedBox G layoutContext' b)
             = width (widthAndMargin (constrainedSolution G layoutContext b cb minWidth))"
proof -
  from horizontal_result [where T = T and b = b and G = G and layoutContext = layoutContext, OF assms(1)] obtain ctx' where
    r: "computeOutOfFlowHorizontalGeometry G T layoutContext b = Inr ctx'" and
    s: "contentBoxWidth (storedBox G ctx' b) =
          width (widthAndMargin (workingSolution (outOfFlowHorizontalGeometry G layoutContext b None)
            (Some (constrainedSolution G layoutContext b cb maxWidth))
            (Some (constrainedSolution G layoutContext b cb minWidth))))"
    using assms(2,3) by (auto simp: Let_def)
  have "workingSolution (outOfFlowHorizontalGeometry G layoutContext b None)
            (Some (constrainedSolution G layoutContext b cb maxWidth))
            (Some (constrainedSolution G layoutContext b cb minWidth))
         = constrainedSolution G layoutContext b cb minWidth"
    using assms(4) by (auto simp: workingSolution_def Let_def)
  with r s show ?thesis by simp
qed

theorem min_width_dominates_max_width_witness:
  "containingBlock (exampleTree 2) = Some 0 \<and>
   resolvedMaxWidth exampleCollaborators exampleTree exampleContext 2 0 = Some 400 \<and>
   resolvedMinWidth exampleCollaborators exampleTree exampleContext 2 0 = Some 600 \<and>
   (\<exists>layoutContext'.
      computeOutOfFlowHorizontalGeometry exampleCollaborators exampleTree exampleContext 2
        = Inr layoutContext' \<and>
      contentBoxWidth (storedBox exampleCollaborators layoutContext' 2) = 600)"
proof -
  have a: "containingBlock (exampleTree 2) = Some 0"
    by (simp add: example_defs)
  have b: "resolvedMaxWidth exampleCollaborators exampleTree exampleContext 2 0 = Some 400"
    by (simp add: example_defs horizontal_defs)
  have c: "resolvedMinWidth exampleCollaborators exampleTree exampleContext 2 0 = Some 600"
    by (simp add: example_defs horizontal_defs)
  have d: "width (widthAndMargin (constrainedSolution exampleCollaborators exampleContext 2 0 400))
           < width (widthAndMargin (constrainedSolution exampleCollaborators exampleContext 2 0 600))"
    by (simp add: example_defs horizontal_defs)
  have e: "width (widthAndMargin (constrainedSolution exampleCollaborators exampleContext 2 0 600)) = 600"
    by (simp add: example_defs horizontal_defs)
  from min_width_dominates_max_width
         [where T = exampleTree and b = 2 and G = exampleCollaborators, OF a b c d] a b c e
  show ?thesis by simp
qed

text \<open>
  C2. When max-width resolves, min-width is auto and the max-constrained solution is
  narrower than the unconstrained one, the content-box width written is the
  max-constrained solution's.
\<close>

theorem max_width_caps_unconstrained:
  fixes G :: "('u::{plus,ord}, 'l) Collaborators"
  assumes "containingBlock (T b) = Some cb"
    and "resolvedMaxWidth G T layoutContext b cb = Some maxWidth"
    and "resolvedMinWidth G T layoutContext b cb = None"
    and "width (widthAndMargin (constrainedSolution G layoutContext b cb maxWidth))
           < width (widthAndMargin (outOfFlowHorizontalGeometry G layoutContext b None))"
  shows "\<exists>layoutContext'.
           computeOutOfFlowHorizontalGeometry G T layoutContext b = Inr layoutContext' \<and>
           contentBoxWidth (storedBox G layoutContext' b)
             = width (widthAndMargin (constrainedSolution G layoutContext b cb maxWidth))"
proof -
  have sel: "workingSolution (outOfFlowHorizontalGeometry G layoutContext b None)
               (Some (constrainedSolution G layoutContext b cb maxWidth)) None
             = constrainedSolution G layoutContext b cb maxWidth"
    using assms(4) by (simp add: workingSolution_def)
  from horizontal_result [where T = T and b = b and G = G and layoutContext = layoutContext,
      OF assms(1)]
  show ?thesis
    using assms(2,3) sel by (auto simp: Let_def)
qed

theorem max_width_caps_unconstrained_witness:
  "containingBlock (exampleTree 3) = Some 0 \<and>
   resolvedMaxWidth exampleCollaborators exampleTree exampleContext 3 0 = Some 400 \<and>
   resolvedMinWidth exampleCollaborators exampleTree exampleContext 3 0 = None \<and>
   width (widthAndMargin (outOfFlowHorizontalGeometry exampleCollaborators exampleContext 3 None))
     = 800 \<and>
   (\<exists>layoutContext'.
      computeOutOfFlowHorizontalGeometry exampleCollaborators exampleTree exampleContext 3
        = Inr layoutContext' \<and>
      contentBoxWidth (storedBox exampleCollaborators layoutContext' 3) = 400)"
proof -
  have a: "containingBlock (exampleTree 3) = Some 0"
    by (simp add: example_defs)
  have b: "resolvedMaxWidth exampleCollaborators exampleTree exampleContext 3 0 = Some 400"
    by (simp add: example_defs horizontal_defs)
  have c: "resolvedMinWidth exampleCollaborators exampleTree exampleContext 3 0 = None"
    by (simp add: example_defs horizontal_defs)
  have u: "width (widthAndMargin
             (outOfFlowHorizontalGeometry exampleCollaborators exampleContext 3 None)) = 800"
    by (simp add: example_defs)
  have e: "width (widthAndMargin (constrainedSolution exampleCollaborators exampleContext 3 0 400))
             = 400"
    by (simp add: example_defs horizontal_defs)
  have d: "width (widthAndMargin (constrainedSolution exampleCollaborators exampleContext 3 0 400))
             < width (widthAndMargin
                 (outOfFlowHorizontalGeometry exampleCollaborators exampleContext 3 None))"
    by (simp add: u e)
  from max_width_caps_unconstrained
         [where T = exampleTree and b = 3 and G = exampleCollaborators, OF a b c d] a b c u e
  show ?thesis by simp
qed

text \<open>
  C3, as the claim states it, fails: the left offset written is the working solution's
  left plus its left margin, not the unconstrained solution's left. For box 3 the
  max-constrained solution is selected, at left 400; the unconstrained solution is at
  left 0, and all margins are 0.
\<close>

theorem left_offset_from_unconstrained_counterexample:
  "\<not> isl (computeOutOfFlowHorizontalGeometry exampleCollaborators exampleTree exampleContext 3) \<and>
   x_pos (topLeft (storedBox exampleCollaborators
     (projr (computeOutOfFlowHorizontalGeometry exampleCollaborators exampleTree exampleContext 3))
     3)) = 400 \<and>
   hg_left (outOfFlowHorizontalGeometry exampleCollaborators exampleContext 3 None)
     + left (horizontalMargin (storedBox exampleCollaborators
         (projr (computeOutOfFlowHorizontalGeometry exampleCollaborators exampleTree exampleContext 3))
         3)) = 0"
  by (simp add: computeOutOfFlowHorizontalGeometry_def Let_def example_defs horizontal_defs
      setLeft_def setContentBoxWidth_def setHorizontalMargin_def
      setHorizontalNonComputedMargin_def)

text \<open>
  C3, amended. For a box with a containing block, the record of the box gets: as left,
  the working solution's left plus the working solution's left margin; as content-box
  width, margin and non-computed margin, the working solution's. All four come from the
  one solution that steps 1 to 3 selected.
\<close>

theorem horizontal_geometry_written_from_working_solution:
  fixes G :: "('u::{plus,ord}, 'l) Collaborators"
  assumes "containingBlock (T b) = Some cb"
    and "sel = workingSolution (outOfFlowHorizontalGeometry G layoutContext b None)
                 (map_option (constrainedSolution G layoutContext b cb)
                    (resolvedMaxWidth G T layoutContext b cb))
                 (map_option (constrainedSolution G layoutContext b cb)
                    (resolvedMinWidth G T layoutContext b cb))"
  shows "\<exists>layoutContext'.
           computeOutOfFlowHorizontalGeometry G T layoutContext b = Inr layoutContext' \<and>
           x_pos (topLeft (storedBox G layoutContext' b))
             = hg_left sel + left (w_margin (widthAndMargin sel)) \<and>
           contentBoxWidth (storedBox G layoutContext' b) = width (widthAndMargin sel) \<and>
           horizontalMargin (storedBox G layoutContext' b) = w_margin (widthAndMargin sel) \<and>
           horizontalNonComputedMargin (storedBox G layoutContext' b)
             = nonComputedMargin (widthAndMargin sel)"
  using horizontal_result [where T = T and b = b and G = G and layoutContext = layoutContext,
      OF assms(1)] assms(2)
  by (auto simp: Let_def)

theorem horizontal_geometry_written_from_working_solution_witness:
  "containingBlock (exampleTree 3) = Some 0 \<and>
   (\<exists>layoutContext'.
      computeOutOfFlowHorizontalGeometry exampleCollaborators exampleTree exampleContext 3
        = Inr layoutContext' \<and>
      x_pos (topLeft (storedBox exampleCollaborators layoutContext' 3)) = 400 \<and>
      contentBoxWidth (storedBox exampleCollaborators layoutContext' 3) = 400 \<and>
      horizontalMargin (storedBox exampleCollaborators layoutContext' 3) = zeroHorizontalEdges \<and>
      horizontalNonComputedMargin (storedBox exampleCollaborators layoutContext' 3)
        = zeroHorizontalEdges)"
proof -
  have a: "containingBlock (exampleTree 3) = Some 0"
    by (simp add: example_defs)
  define sel where "sel = workingSolution
      (outOfFlowHorizontalGeometry exampleCollaborators exampleContext 3 None)
      (map_option (constrainedSolution exampleCollaborators exampleContext 3 0)
         (resolvedMaxWidth exampleCollaborators exampleTree exampleContext 3 0))
      (map_option (constrainedSolution exampleCollaborators exampleContext 3 0)
         (resolvedMinWidth exampleCollaborators exampleTree exampleContext 3 0))"
  have s: "sel = \<lparr>hg_left = 400, hg_right = 0,
                  widthAndMargin = \<lparr>width = 400, w_margin = zeroHorizontalEdges,
                                    nonComputedMargin = zeroHorizontalEdges\<rparr>\<rparr>"
    unfolding sel_def
    by (simp add: workingSolution_def exampleCollaborators_def exampleTree_def exampleContext_def
        exampleBox_def exampleDisplayBox_def horizontal_defs)
  from horizontal_geometry_written_from_working_solution
         [where T = exampleTree and b = 3 and G = exampleCollaborators, OF a sel_def] a s
  show ?thesis by (simp add: zeroHorizontalEdges_def)
qed

subsection \<open>The vertical resolver\<close>

lemma vertical_result:
  fixes G :: "('u::{plus,ord}, 'l) Collaborators"
  shows "computeOutOfFlowVerticalGeometry G layoutContext b =
     (let sel = selectedVerticalGeometry G layoutContext b
      in if assertionsEnabled G \<and> collapsedMargin (heightAndMargin sel) \<noteq> None
         then Inl AssertionFailure
         else Inr ((snd (displayBoxForLayoutBox G layoutContext b))
                (b \<mapsto> (storedBox G layoutContext b)
                   \<lparr>topLeft := (topLeft (storedBox G layoutContext b))
                       \<lparr>y_pos := vg_top sel + top_edge (h_margin (heightAndMargin sel))\<rparr>,
                    contentBoxHeight := height (heightAndMargin sel),
                    verticalMargin := h_margin (heightAndMargin sel),
                    verticalNonCollapsedMargin := h_margin (heightAndMargin sel)\<rparr>)))"
  by (simp add: computeOutOfFlowVerticalGeometry_def Let_def split_beta
      displayBoxForLayoutBox_fst selectedVerticalGeometry_def workingVerticalSolution_def
      setTop_def setContentBoxHeight_def setVerticalMargin_def setVerticalNonCollapsedMargin_def
      split: option.splits)

lemma selectedVerticalGeometry_candidate:
  "\<exists>usedHeight. selectedVerticalGeometry G layoutContext b
      = outOfFlowVerticalGeometry G layoutContext b usedHeight"
  unfolding selectedVerticalGeometry_def workingVerticalSolution_def Let_def
  by (cases "computedMaxHeight G layoutContext b"; cases "computedMinHeight G layoutContext b")
     auto

text \<open>
  The assertion is there: the call ends in \<open>AssertionFailure\<close> exactly in a debug build
  when the selected solution carries a collapsed margin.
\<close>

lemma vertical_assertion:
  fixes G :: "('u::{plus,ord}, 'l) Collaborators"
  shows "(computeOutOfFlowVerticalGeometry G layoutContext b = Inl e) =
     (e = AssertionFailure \<and> assertionsEnabled G \<and>
      collapsedMargin (heightAndMargin (selectedVerticalGeometry G layoutContext b)) \<noteq> None)"
  by (auto simp: vertical_result Let_def)

text \<open>
  C8. \<open>computeOutOfFlowVerticalGeometry\<close> asserts that the selected solution carries no
  collapsed margin: the call ends in \<open>AssertionFailure\<close> exactly when assertions are
  compiled in and the selected solution carries one. When no solution of the Geometry
  collaborator for the box carries a collapsed margin, the assertion holds: the call does
  not end in \<open>AssertionFailure\<close>, it returns a context, in a debug build too.
\<close>

theorem no_collapsed_margin_assertion_unreachable:
  fixes G :: "('u::{plus,ord}, 'l) Collaborators"
  shows "((computeOutOfFlowVerticalGeometry G layoutContext b = Inl AssertionFailure) =
            (assertionsEnabled G \<and>
             collapsedMargin (heightAndMargin (selectedVerticalGeometry G layoutContext b)) \<noteq> None)) \<and>
         ((\<forall>usedHeight. collapsedMargin (heightAndMargin
               (outOfFlowVerticalGeometry G layoutContext b usedHeight)) = None) \<longrightarrow>
          computeOutOfFlowVerticalGeometry G layoutContext b \<noteq> Inl AssertionFailure \<and>
          (\<exists>layoutContext'.
             computeOutOfFlowVerticalGeometry G layoutContext b = Inr layoutContext'))"
proof (intro conjI impI)
  show "(computeOutOfFlowVerticalGeometry G layoutContext b = Inl AssertionFailure) =
          (assertionsEnabled G \<and>
           collapsedMargin (heightAndMargin (selectedVerticalGeometry G layoutContext b)) \<noteq> None)"
    by (simp add: vertical_assertion)
next
  assume pre: "\<forall>usedHeight. collapsedMargin (heightAndMargin
                 (outOfFlowVerticalGeometry G layoutContext b usedHeight)) = None"
  obtain usedHeight where "selectedVerticalGeometry G layoutContext b
      = outOfFlowVerticalGeometry G layoutContext b usedHeight"
    using selectedVerticalGeometry_candidate by blast
  with pre
  have none: "collapsedMargin (heightAndMargin (selectedVerticalGeometry G layoutContext b)) = None"
    by simp
  then show "computeOutOfFlowVerticalGeometry G layoutContext b \<noteq> Inl AssertionFailure"
    by (simp add: vertical_result Let_def)
  from none
  show "\<exists>layoutContext'. computeOutOfFlowVerticalGeometry G layoutContext b = Inr layoutContext'"
    by (simp add: vertical_result Let_def)
qed

theorem no_collapsed_margin_assertion_unreachable_witness:
  "assertionsEnabled exampleCollaborators \<and>
   computeOutOfFlowVerticalGeometry exampleCollaborators exampleContext 2 \<noteq> Inl AssertionFailure \<and>
   (\<exists>layoutContext'.
      computeOutOfFlowVerticalGeometry exampleCollaborators exampleContext 2 = Inr layoutContext')"
proof -
  have h: "\<forall>usedHeight. collapsedMargin (heightAndMargin
             (outOfFlowVerticalGeometry exampleCollaborators exampleContext 2 usedHeight)) = None"
    by (simp add: exampleCollaborators_def)
  have d: "assertionsEnabled exampleCollaborators"
    by (simp add: exampleCollaborators_def)
  from no_collapsed_margin_assertion_unreachable [of exampleCollaborators exampleContext 2] h d
  show ?thesis by blast
qed

text \<open>
  C10. When \<open>computeOutOfFlowVerticalGeometry\<close> has returned, the vertical non-collapsed
  margin of the box's record equals its vertical margin.
\<close>

theorem vertical_non_collapsed_margin_is_margin:
  fixes G :: "('u::{plus,ord}, 'l) Collaborators"
  assumes "computeOutOfFlowVerticalGeometry G layoutContext b = Inr layoutContext'"
  shows "verticalNonCollapsedMargin (storedBox G layoutContext' b)
           = verticalMargin (storedBox G layoutContext' b)"
  using assms by (auto simp: vertical_result Let_def storedBox_upd_same split: if_splits)

theorem vertical_non_collapsed_margin_is_margin_witness:
  "verticalNonCollapsedMargin (storedBox exampleCollaborators exampleContext 2)
     \<noteq> verticalMargin (storedBox exampleCollaborators exampleContext 2) \<and>
   \<not> isl (computeOutOfFlowVerticalGeometry exampleCollaborators exampleContext 2) \<and>
   verticalNonCollapsedMargin (storedBox exampleCollaborators
       (projr (computeOutOfFlowVerticalGeometry exampleCollaborators exampleContext 2)) 2)
     = verticalMargin (storedBox exampleCollaborators
       (projr (computeOutOfFlowVerticalGeometry exampleCollaborators exampleContext 2)) 2)"
proof -
  have before: "verticalNonCollapsedMargin (storedBox exampleCollaborators exampleContext 2)
     \<noteq> verticalMargin (storedBox exampleCollaborators exampleContext 2)"
    by (simp add: example_defs storedBox_def displayBoxForLayoutBox_def)
  have "\<not> isl (computeOutOfFlowVerticalGeometry exampleCollaborators exampleContext 2)"
    by (simp add: vertical_result Let_def selectedVerticalGeometry_def
        workingVerticalSolution_def exampleCollaborators_def)
  then have r: "computeOutOfFlowVerticalGeometry exampleCollaborators exampleContext 2
      = Inr (projr (computeOutOfFlowVerticalGeometry exampleCollaborators exampleContext 2))"
    by simp
  from vertical_non_collapsed_margin_is_margin [OF r] r before show ?thesis
    by (metis sum.disc(2))
qed

subsection \<open>The coordinate mapper\<close>

lemma accessed_Nil: "accessed G ctx [] = ctx"
  by (simp add: accessed_def)

lemma accessed_Cons:
  "accessed G ctx (b # bs) = accessed G (snd (displayBoxForLayoutBox G ctx b)) bs"
  by (simp add: accessed_def)

lemma access_keeps: "ctx k = Some d \<Longrightarrow> snd (displayBoxForLayoutBox G ctx b) k = Some d"
  by (auto simp: displayBoxForLayoutBox_def split: option.splits)

lemma accessed_keeps: "ctx k = Some d \<Longrightarrow> accessed G ctx bs k = Some d"
  by (induction bs arbitrary: ctx) (simp_all add: accessed_Nil accessed_Cons access_keeps)

lemma storedBox_accessed: "storedBox G (accessed G ctx bs) k = storedBox G ctx k"
  by (induction bs arbitrary: ctx) (simp_all add: accessed_Nil accessed_Cons storedBox_after_access)

lemma movedAlong_Nil: "movedAlong G ctx p [] = p"
  by (simp add: movedAlong_def)

lemma movedAlong_Cons:
  "movedAlong G ctx p (c # cs) = movedAlong G ctx (moveBy p (topLeft (storedBox G ctx c))) cs"
  by (simp add: movedAlong_def)

lemma movedAlong_after_access:
  "movedAlong G (snd (displayBoxForLayoutBox G ctx k)) p cs = movedAlong G ctx p cs"
  by (simp add: movedAlong_def storedBox_after_access)

lemma mapBoxToAncestor_loop_chain:
  assumes "containingBlockChain T ancestor start cs stop"
  shows "mapBoxToAncestor_loop G T ancestor ctx p start
           = Some (movedAlong G ctx p cs, stop, accessed G ctx cs)"
  using assms
proof (induction arbitrary: ctx p)
  case chain_null
  show ?case by (simp add: mapBoxToAncestor_loop.simps movedAlong_Nil accessed_Nil)
next
  case chain_ancestor
  show ?case by (simp add: mapBoxToAncestor_loop.simps movedAlong_Nil accessed_Nil)
next
  case (chain_step c cs stop)
  show ?case
    apply (subst mapBoxToAncestor_loop.simps)
    apply (simp add: chain_step.hyps(1) split_beta chain_step.IH movedAlong_Cons accessed_Cons
        movedAlong_after_access displayBoxForLayoutBox_fst)
    done
qed

lemma mapCoordinateToAncestor_loop_chain:
  assumes "containingBlockChain T ancestor start cs stop"
  shows "mapCoordinateToAncestor_loop G T ancestor ctx p start
           = Some (movedAlong G ctx p cs, stop, accessed G ctx cs)"
  using assms
proof (induction arbitrary: ctx p)
  case chain_null
  show ?case by (simp add: mapCoordinateToAncestor_loop.simps movedAlong_Nil accessed_Nil)
next
  case chain_ancestor
  show ?case by (simp add: mapCoordinateToAncestor_loop.simps movedAlong_Nil accessed_Nil)
next
  case (chain_step c cs stop)
  show ?case
    apply (subst mapCoordinateToAncestor_loop.simps)
    apply (simp add: chain_step.hyps(1) split_beta chain_step.IH movedAlong_Cons accessed_Cons
        movedAlong_after_access displayBoxForLayoutBox_fst)
    done
qed

text \<open>A walk that ends has followed a chain: the chains describe every returning call.\<close>

lemma mapBoxToAncestor_loop_returns:
  assumes "mapBoxToAncestor_loop G T ancestor ctx p start = Some r"
  shows "\<exists>cs. containingBlockChain T ancestor start cs (fst (snd r))"
proof (rule mapBoxToAncestor_loop.raw_induct
    [where P = "\<lambda>G T ancestor ctx p start r.
        \<exists>cs. containingBlockChain T ancestor start cs (fst (snd r))", OF _ assms])
  fix loop :: "('a, 'b) Collaborators \<Rightarrow> 'b LayoutTree \<Rightarrow> box_id \<Rightarrow> 'a LayoutContext
      \<Rightarrow> 'a Position \<Rightarrow> box_id option \<Rightarrow> ('a Position \<times> box_id option \<times> 'a LayoutContext) option"
  fix G T ancestor ctx p start r
  assume IH: "\<And>G T ancestor ctx p start r. loop G T ancestor ctx p start = Some r
      \<Longrightarrow> \<exists>cs. containingBlockChain T ancestor start cs (fst (snd r))"
  assume body: "(case start of
        None \<Rightarrow> Some (p, None, ctx)
      | Some c \<Rightarrow>
         if c = ancestor then Some (p, Some c, ctx)
         else (case displayBoxForLayoutBox G ctx c of
                 (displayBox, layoutContext1) \<Rightarrow>
                   loop G T ancestor layoutContext1
                     (moveBy p (topLeft displayBox)) (containingBlock (T c)))) = Some r"
  show "\<exists>cs. containingBlockChain T ancestor start cs (fst (snd r))"
  proof (cases start)
    case None
    with body have "fst (snd r) = None" by auto
    with None show ?thesis using chain_null [of T ancestor] by auto
  next
    case (Some c)
    show ?thesis
    proof (cases "c = ancestor")
      case True
      with body Some have "fst (snd r) = Some ancestor" by auto
      with True Some show ?thesis using chain_ancestor [of T ancestor] by auto
    next
      case False
      with body Some have "loop G T ancestor (snd (displayBoxForLayoutBox G ctx c))
          (moveBy p (topLeft (fst (displayBoxForLayoutBox G ctx c)))) (containingBlock (T c)) = Some r"
        by (simp add: split_beta)
      from IH [OF this] obtain cs where
        "containingBlockChain T ancestor (containingBlock (T c)) cs (fst (snd r))" ..
      with False Some show ?thesis using chain_step [of c ancestor T cs "fst (snd r)"] by auto
    qed
  qed
qed

lemma mapBoxToAncestor_result:
  assumes "containingBlockChain T ancestor (containingBlock (T b)) cs stop"
  shows "mapBoxToAncestor G T ctx b ancestor =
     (if assertionsEnabled G \<and> \<not> isDescendantOf G b ancestor then Some (Inl AssertionFailure)
      else if stop = None
           then (if assertionsEnabled G then Some (Inl AssertionFailure)
                 else Some (Inr (storedBox G ctx b, accessed G ctx (b # cs))))
           else Some (Inr (setTopLeft (movedAlong G ctx (topLeft (storedBox G ctx b)) cs)
                             (storedBox G ctx b), accessed G ctx (b # cs))))"
  by (auto simp: mapBoxToAncestor_def split_beta mapBoxToAncestor_loop_chain [OF assms]
      displayBoxForLayoutBox_fst accessed_Cons storedBox_accessed storedBox_after_access
      movedAlong_after_access)

lemma mapCoordinateToAncestor_result:
  assumes "containingBlockChain T ancestor (Some cb) cs stop"
  shows "mapCoordinateToAncestor G T ctx p cb ancestor =
     (if stop = None
      then (if assertionsEnabled G then Some (Inl AssertionFailure)
            else Some (Inr (p, accessed G ctx cs)))
      else Some (Inr (movedAlong G ctx p cs, accessed G ctx cs)))"
  by (auto simp: mapCoordinateToAncestor_def mapCoordinateToAncestor_loop_chain [OF assms])

lemma mapTopLeftToAncestor_result:
  assumes "containingBlockChain T ancestor (containingBlock (T b)) cs (Some ancestor)"
  shows "mapTopLeftToAncestor G T ctx b ancestor =
     (if assertionsEnabled G \<and> \<not> isDescendantOf G b ancestor then Some (Inl AssertionFailure)
      else Some (Inr (movedAlong G ctx (topLeft (storedBox G ctx b)) cs, accessed G ctx (b # cs))))"
proof -
  from assms obtain cb where cb: "containingBlock (T b) = Some cb"
    by (cases rule: containingBlockChain.cases) auto
  with assms have chain: "containingBlockChain T ancestor (Some cb) cs (Some ancestor)"
    by simp
  from cb show ?thesis
    by (simp add: mapTopLeftToAncestor_def split_beta displayBoxForLayoutBox_fst accessed_Cons
        movedAlong_after_access mapCoordinateToAncestor_result [OF chain])
qed

text \<open>
  When \<open>+\<close> on \<open>LayoutUnit\<close> is associative with a zero, moving along the chain is
  adding the sum of the top-lefts.
\<close>

lemma movedAlong_sum:
  fixes G :: "('u::monoid_add, 'l) Collaborators"
  shows "movedAlong G ctx p cs =
     moveBy p \<lparr>x_pos = sum_list (map (\<lambda>c. x_pos (topLeft (storedBox G ctx c))) cs),
               y_pos = sum_list (map (\<lambda>c. y_pos (topLeft (storedBox G ctx c))) cs)\<rparr>"
  by (induction cs arbitrary: p) (simp_all add: movedAlong_Nil movedAlong_Cons moveBy_def add.assoc)

text \<open>
  C4. When the chain of containing blocks of a box reaches the ancestor (the box is a
  descendant of it), the mapped position is the box's stored top-left moved by the
  top-left of the record of each box on the chain, from the box's containing block up
  to, not including, the ancestor; \<open>mapTopLeftToAncestor\<close> (which is
  \<open>mapCoordinateToAncestor\<close> on the stored top-left) returns it, and it is the top-left of
  the record \<open>mapBoxToAncestor\<close> returns.
\<close>

theorem mapped_position_accumulates_chain:
  fixes G :: "('u::plus, 'l) Collaborators"
  assumes "containingBlockChain T ancestor (containingBlock (T b)) cs (Some ancestor)"
    and "assertionsEnabled G \<longrightarrow> isDescendantOf G b ancestor"
  shows "(\<exists>layoutContext'. mapTopLeftToAncestor G T layoutContext b ancestor
            = Some (Inr (foldl moveBy (topLeft (storedBox G layoutContext b))
                           (map (\<lambda>c. topLeft (storedBox G layoutContext c)) cs),
                         layoutContext'))) \<and>
         (\<exists>mapped layoutContext'. mapBoxToAncestor G T layoutContext b ancestor
            = Some (Inr (mapped, layoutContext')) \<and>
            topLeft mapped = foldl moveBy (topLeft (storedBox G layoutContext b))
                               (map (\<lambda>c. topLeft (storedBox G layoutContext c)) cs))"
  using assms(2)
  by (simp add: mapTopLeftToAncestor_result [OF assms(1)] mapBoxToAncestor_result [OF assms(1)]
      movedAlong_def setTopLeft_def)


lemma exampleTree_containingBlock:
  "containingBlock (exampleTree 5) = Some 4" "containingBlock (exampleTree 4) = Some 2"
  "containingBlock (exampleTree 2) = Some 0" "containingBlock (exampleTree 0) = None"
  by (simp_all add: exampleTree_def exampleBox_def)

lemma exampleTree_chain_5_0:
  "containingBlockChain exampleTree 0 (containingBlock (exampleTree 5)) [4, 2] (Some 0)"
proof -
  have c0: "containingBlockChain exampleTree 0 (Some 0) [] (Some 0)"
    by (rule chain_ancestor)
  have c2: "containingBlockChain exampleTree 0 (Some 2) [2] (Some 0)"
    by (rule chain_step) (simp_all add: exampleTree_containingBlock c0)
  have c4: "containingBlockChain exampleTree 0 (Some 4) [4, 2] (Some 0)"
    by (rule chain_step) (simp_all add: exampleTree_containingBlock c2)
  then show ?thesis
    by (simp add: exampleTree_containingBlock)
qed

lemma exampleTree_chain_5_3:
  "containingBlockChain exampleTree 3 (Some 4) [4, 2, 0] None"
proof -
  have c: "containingBlockChain exampleTree 3 None [] None"
    by (rule chain_null)
  have c0: "containingBlockChain exampleTree 3 (Some 0) [0] None"
    by (rule chain_step) (simp_all add: exampleTree_containingBlock c)
  have c2: "containingBlockChain exampleTree 3 (Some 2) [2, 0] None"
    by (rule chain_step) (simp_all add: exampleTree_containingBlock c0)
  show ?thesis
    by (rule chain_step) (simp_all add: exampleTree_containingBlock c2)
qed

lemma exampleContext_storedBox:
  "storedBox G exampleContext 5 = exampleDisplayBox 100 200 10"
  "storedBox G exampleContext 4 = exampleDisplayBox 1 2 50"
  "storedBox G exampleContext 2 = exampleDisplayBox 10 20 300"
  "storedBox G exampleContext 0 = exampleDisplayBox 0 0 800"
  by (simp_all add: storedBox_def displayBoxForLayoutBox_def exampleContext_def)

theorem mapped_position_accumulates_chain_witness:
  "containingBlockChain exampleTree 0 (containingBlock (exampleTree 5)) [4, 2] (Some 0) \<and>
   isDescendantOf exampleCollaborators 5 0 \<and>
   (\<exists>layoutContext'. mapTopLeftToAncestor exampleCollaborators exampleTree exampleContext 5 0
       = Some (Inr (\<lparr>x_pos = 111, y_pos = 222\<rparr>, layoutContext'))) \<and>
   (\<exists>mapped layoutContext'. mapBoxToAncestor exampleCollaborators exampleTree exampleContext 5 0
       = Some (Inr (mapped, layoutContext')) \<and>
      topLeft mapped = \<lparr>x_pos = 111, y_pos = 222\<rparr>)"
proof -
  have d: "isDescendantOf exampleCollaborators 5 0"
    by (simp add: exampleCollaborators_def)
  then have d': "assertionsEnabled exampleCollaborators \<longrightarrow> isDescendantOf exampleCollaborators 5 0"
    by simp
  from mapped_position_accumulates_chain [OF exampleTree_chain_5_0 d', of exampleContext]
    exampleTree_chain_5_0 d
  show ?thesis
    by (simp add: exampleContext_storedBox exampleDisplayBox_def moveBy_def)
qed

text \<open>
  C5. In a build without assertions, when the chain of containing blocks runs off the
  top (reaches null) without meeting the ancestor, \<open>mapCoordinateToAncestor\<close> returns the
  position it was given and \<open>mapBoxToAncestor\<close> returns the box's record as stored, its
  top-left unmapped; neither ends in a failure.
\<close>

theorem unmapped_value_when_ancestor_not_reached:
  fixes G :: "('u::plus, 'l) Collaborators"
  assumes "\<not> assertionsEnabled G"
  shows "(containingBlockChain T ancestor (Some cb) cs None \<longrightarrow>
            (\<exists>layoutContext'. mapCoordinateToAncestor G T layoutContext position cb ancestor
               = Some (Inr (position, layoutContext')))) \<and>
         (containingBlockChain T ancestor (containingBlock (T b)) cs' None \<longrightarrow>
            (\<exists>layoutContext'. mapBoxToAncestor G T layoutContext b ancestor
               = Some (Inr (storedBox G layoutContext b, layoutContext'))))"
  using assms
  by (auto simp: mapCoordinateToAncestor_result mapBoxToAncestor_result)

theorem unmapped_value_when_ancestor_not_reached_witness:
  "containingBlockChain exampleTree 3 (Some 4) [4, 2, 0] None \<and>
   containingBlockChain exampleTree 3 (containingBlock (exampleTree 5)) [4, 2, 0] None \<and>
   (\<exists>layoutContext'.
      mapCoordinateToAncestor (exampleCollaborators\<lparr>assertionsEnabled := False\<rparr>) exampleTree
        exampleContext \<lparr>x_pos = 100, y_pos = 200\<rparr> 4 3
        = Some (Inr (\<lparr>x_pos = 100, y_pos = 200\<rparr>, layoutContext'))) \<and>
   (\<exists>layoutContext'.
      mapBoxToAncestor (exampleCollaborators\<lparr>assertionsEnabled := False\<rparr>) exampleTree
        exampleContext 5 3
        = Some (Inr (exampleDisplayBox 100 200 10, layoutContext')))"
proof -
  have a: "\<not> assertionsEnabled (exampleCollaborators\<lparr>assertionsEnabled := False\<rparr>)"
    by simp
  have c: "containingBlockChain exampleTree 3 (containingBlock (exampleTree 5)) [4, 2, 0] None"
    using exampleTree_chain_5_3 by (simp add: exampleTree_containingBlock)
  from unmapped_value_when_ancestor_not_reached
         [OF a, of exampleTree 3 4 "[4, 2, 0]" exampleContext "\<lparr>x_pos = 100, y_pos = 200\<rparr>"
            5 "[4, 2, 0]"]
    exampleTree_chain_5_3 c
  show ?thesis
    by (simp add: exampleContext_storedBox)
qed

text \<open>
  Whenever \<open>mapBoxToAncestor\<close> returns a record, whether the chain reached the
  ancestor or not, the records stored before the call are stored unchanged after it.
\<close>

lemma mapBoxToAncestor_returns_frame:
  fixes G :: "('u::plus, 'l) Collaborators"
  assumes "mapBoxToAncestor G T ctx b ancestor = Some (Inr (mapped, ctx'))"
  shows "(\<forall>k d. ctx k = Some d \<longrightarrow> ctx' k = Some d) \<and>
         (\<forall>k. storedBox G ctx' k = storedBox G ctx k)"
proof -
  from assms obtain r where
    "mapBoxToAncestor_loop G T ancestor (snd (displayBoxForLayoutBox G ctx b))
       (topLeft (fst (displayBoxForLayoutBox G ctx b))) (containingBlock (T b)) = Some r"
    by (auto simp: mapBoxToAncestor_def split_beta split: if_splits option.splits)
  from mapBoxToAncestor_loop_returns [OF this] obtain cs stop where
    chain: "containingBlockChain T ancestor (containingBlock (T b)) cs stop"
    by blast
  from assms have "ctx' = accessed G ctx (b # cs)"
    by (auto simp: mapBoxToAncestor_result [OF chain] split: if_splits)
  then show ?thesis
    by (simp add: accessed_keeps storedBox_accessed)
qed

text \<open>
  C9. \<open>mapBoxToAncestor\<close>, for a box whose chain reaches the ancestor, returns a record
  that is the box's stored record with the top-left replaced by the mapped one, and the
  context it leaves has every record that was stored before the call, unchanged: the
  walk only adds records for boxes that had none, so every box reads as before.
\<close>

theorem mapBoxToAncestor_leaves_records_unchanged:
  fixes G :: "('u::plus, 'l) Collaborators"
  assumes "containingBlockChain T ancestor (containingBlock (T b)) cs (Some ancestor)"
    and "assertionsEnabled G \<longrightarrow> isDescendantOf G b ancestor"
  shows "\<exists>mapped layoutContext'.
           mapBoxToAncestor G T layoutContext b ancestor = Some (Inr (mapped, layoutContext')) \<and>
           mapped = (storedBox G layoutContext b)
                      \<lparr>topLeft := foldl moveBy (topLeft (storedBox G layoutContext b))
                                    (map (\<lambda>c. topLeft (storedBox G layoutContext c)) cs)\<rparr> \<and>
           (\<forall>k d. layoutContext k = Some d \<longrightarrow> layoutContext' k = Some d) \<and>
           (\<forall>k. storedBox G layoutContext' k = storedBox G layoutContext k)"
  using assms(2)
  by (simp add: mapBoxToAncestor_result [OF assms(1)] movedAlong_def setTopLeft_def
      accessed_keeps storedBox_accessed)

theorem mapBoxToAncestor_leaves_records_unchanged_witness:
  "containingBlockChain exampleTree 0 (containingBlock (exampleTree 5)) [4, 2] (Some 0) \<and>
   isDescendantOf exampleCollaborators 5 0 \<and>
   (\<exists>mapped layoutContext'.
      mapBoxToAncestor exampleCollaborators exampleTree exampleContext 5 0
        = Some (Inr (mapped, layoutContext')) \<and>
      mapped = exampleDisplayBox 111 222 10 \<and>
      layoutContext' 5 = Some (exampleDisplayBox 100 200 10) \<and>
      layoutContext' 4 = Some (exampleDisplayBox 1 2 50) \<and>
      layoutContext' 2 = Some (exampleDisplayBox 10 20 300) \<and>
      layoutContext' 0 = Some (exampleDisplayBox 0 0 800))"
proof -
  have d: "isDescendantOf exampleCollaborators 5 0"
    by (simp add: exampleCollaborators_def)
  then have d': "assertionsEnabled exampleCollaborators \<longrightarrow> isDescendantOf exampleCollaborators 5 0"
    by simp
  have s: "exampleContext 5 = Some (exampleDisplayBox 100 200 10)"
    "exampleContext 4 = Some (exampleDisplayBox 1 2 50)"
    "exampleContext 2 = Some (exampleDisplayBox 10 20 300)"
    "exampleContext 0 = Some (exampleDisplayBox 0 0 800)"
    by (simp_all add: exampleContext_def)
  from mapBoxToAncestor_leaves_records_unchanged [OF exampleTree_chain_5_0 d', of exampleContext]
  obtain mapped ctx' where
    r: "mapBoxToAncestor exampleCollaborators exampleTree exampleContext 5 0
          = Some (Inr (mapped, ctx'))" and
    m: "mapped = (storedBox exampleCollaborators exampleContext 5)
           \<lparr>topLeft := foldl moveBy (topLeft (storedBox exampleCollaborators exampleContext 5))
              (map (\<lambda>c. topLeft (storedBox exampleCollaborators exampleContext c)) [4, 2])\<rparr>" and
    f: "\<forall>k d. exampleContext k = Some d \<longrightarrow> ctx' k = Some d"
    by blast
  from m have "mapped = exampleDisplayBox 111 222 10"
    by (simp add: exampleContext_storedBox exampleDisplayBox_def moveBy_def)
  with r f s exampleTree_chain_5_0 d show ?thesis
    by simp
qed

subsection \<open>The traversal\<close>

lemma layoutOutOfFlowDescendants_visited:
  "layoutOutOfFlowDescendants depth G T ctx b
     = layoutEachOutOfFlowBox depth G T ctx (visitedDescendants T b)"
  by (simp add: visitedDescendants_def)

declare layoutOutOfFlowDescendants.simps [simp del] layoutEachOutOfFlowBox.simps(2) [simp del]
  applyCall.simps(5) [simp]

lemma horizontal_returns:
  fixes G :: "('u::{plus,ord}, 'l) Collaborators"
  assumes "containingBlock (T b) \<noteq> None"
  shows "\<exists>ctx'. computeOutOfFlowHorizontalGeometry G T ctx b = Inr ctx'"
proof -
  from assms obtain cb where "containingBlock (T b) = Some cb" by auto
  from horizontal_result [where T = T and b = b and G = G and layoutContext = ctx, OF this]
  show ?thesis by blast
qed

lemma vertical_returns:
  fixes G :: "('u::{plus,ord}, 'l) Collaborators"
  assumes "assertionsEnabled G \<longrightarrow> (\<forall>ctx usedHeight. collapsedMargin (heightAndMargin
              (outOfFlowVerticalGeometry G ctx b usedHeight)) = None)"
  shows "\<exists>ctx'. computeOutOfFlowVerticalGeometry G ctx b = Inr ctx'"
proof (cases "computeOutOfFlowVerticalGeometry G ctx b")
  case (Inl e)
  then have a: "assertionsEnabled G" and
    c: "collapsedMargin (heightAndMargin (selectedVerticalGeometry G ctx b)) \<noteq> None"
    by (simp_all add: vertical_assertion)
  obtain h where "selectedVerticalGeometry G ctx b = outOfFlowVerticalGeometry G ctx b h"
    using selectedVerticalGeometry_candidate by blast
  with a c assms show ?thesis by simp
next
  case (Inr c)
  then show ?thesis by simp
qed

lemma layoutEachOutOfFlowBox_Cons:
  fixes G :: "('u::{plus,ord}, 'l) Collaborators"
  assumes ok: "stepsSucceed G T b"
    and nested: "layoutOutOfFlowDescendants deeper G T
        (foldl (applyCall G T) ctx
           [CallComputeBorderAndPadding b, CallComputeOutOfFlowHorizontalGeometry b,
            CallFormattingContextLayout b, CallComputeOutOfFlowVerticalGeometry b,
            CallLayoutOutOfFlowDescendants b]) b = Inr (calls1, ctx5)"
    and later: "layoutEachOutOfFlowBox (Suc deeper) G T ctx5 rest = Inr (calls2, ctx6)"
  shows "layoutEachOutOfFlowBox (Suc deeper) G T ctx (b # rest) =
     Inr ([CallComputeBorderAndPadding b, CallComputeOutOfFlowHorizontalGeometry b,
           CallFormattingContextLayout b, CallComputeOutOfFlowVerticalGeometry b,
           CallLayoutOutOfFlowDescendants b] @ calls1 @ calls2, ctx6)"
proof -
  from ok have cb: "containingBlock (T b) \<noteq> None"
    and fc: "assertionsEnabled G \<longrightarrow> establishesFormattingContext (T b)"
    and cm: "assertionsEnabled G \<longrightarrow> (\<forall>ctx usedHeight. collapsedMargin (heightAndMargin
              (outOfFlowVerticalGeometry G ctx b usedHeight)) = None)"
    by (simp_all add: stepsSucceed_def)
  define ctx1 where "ctx1 = computeBorderAndPadding G ctx b"
  obtain ctx2 where h: "computeOutOfFlowHorizontalGeometry G T ctx1 b = Inr ctx2"
    using horizontal_returns [where T = T and b = b, OF cb] by blast
  define ctx3 where "ctx3 = formattingContextLayout G ctx2 b"
  obtain ctx4 where v: "computeOutOfFlowVerticalGeometry G ctx3 b = Inr ctx4"
    using vertical_returns [OF cm] by blast
  have "foldl (applyCall G T) ctx
           [CallComputeBorderAndPadding b, CallComputeOutOfFlowHorizontalGeometry b,
            CallFormattingContextLayout b, CallComputeOutOfFlowVerticalGeometry b,
            CallLayoutOutOfFlowDescendants b] = ctx4"
    using h v by (simp add: ctx1_def [symmetric] ctx3_def [symmetric])
  with nested have n: "layoutOutOfFlowDescendants deeper G T ctx4 b = Inr (calls1, ctx5)"
    by simp
  show ?thesis
    apply (subst layoutEachOutOfFlowBox.simps)
    using fc h v n later
    apply (simp add: ctx1_def [symmetric] ctx3_def [symmetric] Let_def)
    done
qed

lemma layoutEachOutOfFlowBox_depth_first:
  fixes G :: "('u::{plus,ord}, 'l) Collaborators"
  assumes "list_all (describesOutOfFlow T) forest"
    and "nestingDepth forest \<le> depth"
    and "\<forall>d \<in> set (boxesOf forest). stepsSucceed G T d"
  shows "layoutEachOutOfFlowBox depth G T ctx (map rootBox forest)
     = Inr (depthFirstCalls forest, foldl (applyCall G T) ctx (depthFirstCalls forest))"
  using assms
proof (induction forest arbitrary: depth ctx rule: depthFirstCalls.induct)
  case 1
  show ?case by simp
next
  case (2 b sub rest)
  from "2.prems"(2) obtain deeper where depth: "depth = Suc deeper"
    and d1: "nestingDepth sub \<le> deeper" and d2: "nestingDepth rest \<le> Suc deeper"
    by (cases depth) auto
  from "2.prems"(1) have s1: "list_all (describesOutOfFlow T) sub"
    and v: "map rootBox sub = visitedDescendants T b"
    and s2: "list_all (describesOutOfFlow T) rest"
    by simp_all
  from "2.prems"(3) have ok: "stepsSucceed G T b"
    and o1: "\<forall>d \<in> set (boxesOf sub). stepsSucceed G T d"
    and o2: "\<forall>d \<in> set (boxesOf rest). stepsSucceed G T d"
    by simp_all
  let ?own = "[CallComputeBorderAndPadding b, CallComputeOutOfFlowHorizontalGeometry b,
            CallFormattingContextLayout b, CallComputeOutOfFlowVerticalGeometry b,
            CallLayoutOutOfFlowDescendants b]"
  let ?ctx4 = "foldl (applyCall G T) ctx ?own"
  let ?ctx5 = "foldl (applyCall G T) ?ctx4 (depthFirstCalls sub)"
  have n: "layoutOutOfFlowDescendants deeper G T ?ctx4 b = Inr (depthFirstCalls sub, ?ctx5)"
    unfolding layoutOutOfFlowDescendants_visited v [symmetric]
    by (rule "2.IH"(1) [OF s1 d1 o1])
  have l: "layoutEachOutOfFlowBox (Suc deeper) G T ?ctx5 (map rootBox rest)
     = Inr (depthFirstCalls rest, foldl (applyCall G T) ?ctx5 (depthFirstCalls rest))"
    by (rule "2.IH"(2) [OF s2 d2 o2])
  from layoutEachOutOfFlowBox_Cons [OF ok n l] depth
  show ?case
    by (simp del: applyCall.simps)
qed


text \<open>
  C6. Let \<open>forest\<close> describe the out-of-flow boxes below a container \<open>b\<close> that the
  traversal processes: its roots are the out-of-flow descendants of \<open>b\<close> in insertion
  order, and below each root is the forest of that box. When the stack has room for the
  nesting and no step fails, the traversal returns, and the calls it made are, for each
  root in order: border and padding, horizontal geometry, the box's formatting-context
  layout, vertical geometry, the recursive call, then all the calls for the forest below
  that root, and only then the calls for the next root. The context it returns is the
  effect of these calls in this order.
\<close>

theorem out_of_flow_descendants_laid_out_depth_first:
  fixes G :: "('u::{plus,ord}, 'l) Collaborators"
  assumes "(isPositioned (T b) \<or> isInitialContainingBlock (T b)) \<and> isContainer (T b)
             \<and> hasChild (T b)"
    and "describesOutOfFlow T (OofNode b forest)"
    and "nestingDepth forest \<le> depth"
    and "\<forall>d \<in> set (boxesOf forest). stepsSucceed G T d"
  shows "map rootBox forest = outOfFlowDescendants (T b) \<and>
         layoutOutOfFlowDescendants depth G T layoutContext b
           = Inr (depthFirstCalls forest,
                  foldl (applyCall G T) layoutContext (depthFirstCalls forest))"
proof -
  from assms(1,2) have roots: "map rootBox forest = outOfFlowDescendants (T b)"
    by (simp add: visitedDescendants_def)
  from assms(2) have v: "map rootBox forest = visitedDescendants T b"
    and d: "list_all (describesOutOfFlow T) forest"
    by simp_all
  have "layoutOutOfFlowDescendants depth G T layoutContext b
          = layoutEachOutOfFlowBox depth G T layoutContext (map rootBox forest)"
    by (simp add: layoutOutOfFlowDescendants_visited v)
  with layoutEachOutOfFlowBox_depth_first [OF d assms(3,4)] roots show ?thesis
    by simp
qed

lemma example_stepsSucceed: "0 < b \<Longrightarrow> stepsSucceed exampleCollaborators exampleTree b"
  by (simp add: stepsSucceed_def exampleCollaborators_def exampleTree_def exampleBox_def)

theorem out_of_flow_descendants_laid_out_depth_first_witness:
  "outOfFlowDescendants (exampleTree 0) = [2, 3] \<and>
   outOfFlowDescendants (exampleTree 2) = [4] \<and>
   outOfFlowDescendants (exampleTree 4) = [5] \<and>
   (\<exists>layoutContext'.
      layoutOutOfFlowDescendants 3 exampleCollaborators exampleTree exampleContext 0
        = Inr ([CallComputeBorderAndPadding 2, CallComputeOutOfFlowHorizontalGeometry 2,
                CallFormattingContextLayout 2, CallComputeOutOfFlowVerticalGeometry 2,
                CallLayoutOutOfFlowDescendants 2,
                CallComputeBorderAndPadding 4, CallComputeOutOfFlowHorizontalGeometry 4,
                CallFormattingContextLayout 4, CallComputeOutOfFlowVerticalGeometry 4,
                CallLayoutOutOfFlowDescendants 4,
                CallComputeBorderAndPadding 5, CallComputeOutOfFlowHorizontalGeometry 5,
                CallFormattingContextLayout 5, CallComputeOutOfFlowVerticalGeometry 5,
                CallLayoutOutOfFlowDescendants 5,
                CallComputeBorderAndPadding 3, CallComputeOutOfFlowHorizontalGeometry 3,
                CallFormattingContextLayout 3, CallComputeOutOfFlowVerticalGeometry 3,
                CallLayoutOutOfFlowDescendants 3], layoutContext'))"
proof -
  let ?forest = "[OofNode 2 [OofNode 4 [OofNode 5 []]], OofNode 3 []]"
  have g: "(isPositioned (exampleTree 0) \<or> isInitialContainingBlock (exampleTree 0))
      \<and> isContainer (exampleTree 0) \<and> hasChild (exampleTree 0)"
    by (simp add: exampleTree_def exampleBox_def)
  have f: "describesOutOfFlow exampleTree (OofNode 0 ?forest)"
    by (simp add: visitedDescendants_def exampleTree_def exampleBox_def)
  have n: "nestingDepth ?forest \<le> 3"
    by simp
  have s: "\<forall>d \<in> set (boxesOf ?forest). stepsSucceed exampleCollaborators exampleTree d"
    by (simp add: example_stepsSucceed)
  have o: "outOfFlowDescendants (exampleTree 0) = [2, 3]"
    "outOfFlowDescendants (exampleTree 2) = [4]" "outOfFlowDescendants (exampleTree 4) = [5]"
    by (simp_all add: exampleTree_def exampleBox_def)
  from out_of_flow_descendants_laid_out_depth_first [OF g f n s, of exampleContext] o
  show ?thesis
    by (simp del: applyCall.simps)
qed

text \<open>
  C7. For a box that is neither positioned nor the initial containing block, or is not
  a container, or has no out-of-flow descendants, \<open>layoutOutOfFlowDescendants\<close> makes no
  call and returns the context it was given: no record is created, none is changed, and
  the steps that read or write records are not run.
\<close>

theorem layoutOutOfFlowDescendants_no_op:
  fixes G :: "('u::{plus,ord}, 'l) Collaborators"
  assumes "(\<not> isPositioned (T b) \<and> \<not> isInitialContainingBlock (T b)) \<or> \<not> isContainer (T b)
             \<or> outOfFlowDescendants (T b) = []"
  shows "layoutOutOfFlowDescendants depth G T layoutContext b = Inr ([], layoutContext)"
  using assms by (auto simp: layoutOutOfFlowDescendants.simps)

theorem layoutOutOfFlowDescendants_no_op_witness:
  "isPositioned (exampleTree 3) \<and> isContainer (exampleTree 3) \<and>
   outOfFlowDescendants (exampleTree 3) = [] \<and>
   layoutOutOfFlowDescendants 0 exampleCollaborators
     (\<lambda>b. (exampleTree b)\<lparr>hasChild := True\<rparr>) exampleContext 3
     = Inr ([], exampleContext)"
proof -
  have e: "outOfFlowDescendants (exampleTree 3) = []"
    and p: "isPositioned (exampleTree 3)" and c: "isContainer (exampleTree 3)"
    by (simp_all add: exampleTree_def exampleBox_def)
  have "(\<not> isPositioned ((exampleTree 3)\<lparr>hasChild := True\<rparr>)
           \<and> \<not> isInitialContainingBlock ((exampleTree 3)\<lparr>hasChild := True\<rparr>))
        \<or> \<not> isContainer ((exampleTree 3)\<lparr>hasChild := True\<rparr>)
        \<or> outOfFlowDescendants ((exampleTree 3)\<lparr>hasChild := True\<rparr>) = []"
    using e by simp
  from layoutOutOfFlowDescendants_no_op
         [where T = "\<lambda>b. (exampleTree b)\<lparr>hasChild := True\<rparr>" and b = 3, OF this] e p c
  show ?thesis by simp
qed

end
